theory Spec2Isabelle
  imports Complex_Main "HOL-Library.Word"
begin

section \<open>Shared types (types/analysis)\<close>

text \<open>
  A JavaScript \<open>number\<close> that the typed part of the program handles is modelled as a
  \<^typ>\<open>real\<close>: all arithmetic is the exact one, rounding of doubles is not modelled.
  A \<open>NormalizedPoint\<close> is the pair \<open>[y, x]\<close>.
\<close>

type_synonym NormalizedPoint = "real \<times> real"
type_synonym NormalizedFaceBox = "real \<times> real \<times> real \<times> real"

datatype AnchorKind = KindEmotion | KindDepth | KindLandmark

datatype FacialPartHint =
    leftEye | rightEye | leftEyeInner | rightEyeInner | nose | leftNoseHole | rightNoseHole
  | mouth | mouthLeft | mouthRight | mouthUpper | mouthLower
  | leftBrow | rightBrow | leftBrowInner | rightBrowInner
  | chin | forehead | leftCheek | rightCheek | faceCenter | unknown

record SemanticAnchor =
  id' :: string
  label :: string
  kind :: AnchorKind
  facialPart :: FacialPartHint
  point :: NormalizedPoint
  confidence :: real
  intensity :: "string option"
  explanation :: "string option"

section \<open>services/tracking: tracked frames and the anchor fusion engine\<close>

record TrackedLandmark =
  index :: nat
  lmPoint :: NormalizedPoint

record TrackedFaceFrame =
  timestampMs :: real
  points :: "TrackedLandmark list"
  parts :: "FacialPartHint \<rightharpoonup> NormalizedPoint"
  faceBox :: "NormalizedFaceBox option"
  frameConfidence :: real

record AnchorBinding =
  anchor :: SemanticAnchor
  landmarkIndex :: "nat option"
  offset :: "NormalizedPoint option"
  lastSeenAt :: real

record FusedAnchor = SemanticAnchor +
  projectedPoint :: NormalizedPoint
  stale :: bool

record AnchorFusionOptions =
  optMaxStaleMs :: "real option"
  optHardMaxStaleMs :: "real option"
  optReacquireDistance :: "real option"

record ProjectOptions =
  preserveStale :: "bool option"

text \<open>
  The engine's \<open>Map<string, AnchorBinding>\<close> is an association list in insertion order
  (a JavaScript \<open>Map\<close> iterates in insertion order, \<open>set\<close> on a present key keeps its
  place, \<open>delete\<close> removes the entry).
\<close>

record AnchorFusionEngine =
  bindings :: "(string \<times> AnchorBinding) list"
  maxStaleMs :: real
  hardMaxStaleMs :: real
  reacquireDistanceSq :: real

definition clamp :: "real \<Rightarrow> real \<Rightarrow> real \<Rightarrow> real" where
  "clamp v lo hi = min hi (max lo v)"

definition squaredDistance :: "NormalizedPoint \<Rightarrow> NormalizedPoint \<Rightarrow> real" where
  "squaredDistance a b = (let dy = fst a - fst b; dx = snd a - snd b in dy * dy + dx * dx)"

definition addOffset :: "NormalizedPoint \<Rightarrow> NormalizedPoint \<Rightarrow> NormalizedPoint" where
  "addOffset p off = (clamp (fst p + fst off) 0 1000, clamp (snd p + snd off) 0 1000)"

definition subtractPoint :: "NormalizedPoint \<Rightarrow> NormalizedPoint \<Rightarrow> NormalizedPoint" where
  "subtractPoint a b = (fst a - fst b, snd a - snd b)"

text \<open>\<open>xs[i]\<close> of a JavaScript array: \<open>undefined\<close> out of range.\<close>

definition elemAt :: "'a list \<Rightarrow> nat \<Rightarrow> 'a option" where
  "elemAt xs i = (if i < length xs then Some (xs ! i) else None)"

text \<open>
  The loop of \<open>nearestLandmarkIndex\<close>: \<open>best\<close> is \<open>None\<close> for the initial
  \<open>Number.POSITIVE_INFINITY\<close>, below which every distance lies.
\<close>

fun nearestLoop :: "NormalizedPoint \<Rightarrow> TrackedLandmark list \<Rightarrow> real option \<Rightarrow> nat option \<Rightarrow> nat option" where
  "nearestLoop target [] best nearest = nearest"
| "nearestLoop target (p # ps) best nearest =
     (let distance = squaredDistance (lmPoint p) target in
      if (case best of None \<Rightarrow> True | Some b \<Rightarrow> distance < b)
      then nearestLoop target ps (Some distance) (Some (index p))
      else nearestLoop target ps best nearest)"

definition nearestLandmarkIndex :: "TrackedFaceFrame \<Rightarrow> NormalizedPoint \<Rightarrow> nat option" where
  "nearestLandmarkIndex frame target =
     (if points frame = [] then None else nearestLoop target (points frame) None None)"

definition mapGet :: "('k \<times> 'v) list \<Rightarrow> 'k \<Rightarrow> 'v option" where
  "mapGet m k = map_of m k"

fun mapSet :: "'k \<Rightarrow> 'v \<Rightarrow> ('k \<times> 'v) list \<Rightarrow> ('k \<times> 'v) list" where
  "mapSet k v [] = [(k, v)]"
| "mapSet k v ((k', v') # m) = (if k' = k then (k, v) # m else (k', v') # mapSet k v m)"

definition newEngine :: "AnchorFusionOptions \<Rightarrow> AnchorFusionEngine" where
  "newEngine options =
     (let maxStale = (case optMaxStaleMs options of Some v \<Rightarrow> v | None \<Rightarrow> 4500);
          reacquireDistance = (case optReacquireDistance options of Some v \<Rightarrow> v | None \<Rightarrow> 130)
      in \<lparr> bindings = [],
           maxStaleMs = maxStale,
           hardMaxStaleMs = max maxStale (case optHardMaxStaleMs options of Some v \<Rightarrow> v | None \<Rightarrow> 30000),
           reacquireDistanceSq = reacquireDistance * reacquireDistance \<rparr>)"

definition resolveTargetPoint :: "SemanticAnchor \<Rightarrow> TrackedFaceFrame \<Rightarrow> NormalizedPoint" where
  "resolveTargetPoint a frame =
     (if facialPart a \<noteq> unknown \<and> parts frame (facialPart a) \<noteq> None
      then the (parts frame (facialPart a))
      else point a)"

text \<open>The body of the second loop of \<open>updateAnchors\<close>, for one incoming anchor.\<close>

definition bindAnchor ::
  "real \<Rightarrow> TrackedFaceFrame option \<Rightarrow> real \<Rightarrow> (string \<times> AnchorBinding) list \<Rightarrow> SemanticAnchor
   \<Rightarrow> (string \<times> AnchorBinding) list" where
  "bindAnchor reacqSq frame nowMs bs a =
     (let previous = mapGet bs (id' a);
          target = (case frame of Some f \<Rightarrow> resolveTargetPoint a f | None \<Rightarrow> point a);
          isKnownPart = (case frame of None \<Rightarrow> False
                         | Some f \<Rightarrow> facialPart a \<noteq> unknown \<and> parts f (facialPart a) \<noteq> None);
          shouldUsePrevious =
            (case previous of None \<Rightarrow> False | Some prev \<Rightarrow>
              (case frame of None \<Rightarrow> False | Some f \<Rightarrow>
                (case landmarkIndex prev of None \<Rightarrow> False | Some i \<Rightarrow>
                  (case elemAt (points f) i of None \<Rightarrow> False | Some tp \<Rightarrow>
                     squaredDistance (point a) (lmPoint tp) < reacqSq))));
          landmarkIndex0 = (case previous of None \<Rightarrow> None | Some prev \<Rightarrow> landmarkIndex prev);
          landmarkIndex1 = (case frame of
                              Some f \<Rightarrow> if \<not> isKnownPart \<and> \<not> shouldUsePrevious
                                        then nearestLandmarkIndex f target else landmarkIndex0
                            | None \<Rightarrow> landmarkIndex0);
          landmarkIndex2 = (if isKnownPart then None else landmarkIndex1);
          trackedPoint = (case frame of None \<Rightarrow> target | Some f \<Rightarrow>
                           (case landmarkIndex2 of None \<Rightarrow> target | Some i \<Rightarrow>
                             (case elemAt (points f) i of Some tp \<Rightarrow> lmPoint tp | None \<Rightarrow> point a)));
          off = (if isKnownPart then (0, 0) else subtractPoint (point a) trackedPoint)
      in mapSet (id' a)
           \<lparr> anchor = a, landmarkIndex = landmarkIndex2, offset = Some off, lastSeenAt = nowMs \<rparr> bs)"

definition updateAnchors ::
  "SemanticAnchor list \<Rightarrow> TrackedFaceFrame option \<Rightarrow> real \<Rightarrow> AnchorFusionEngine \<Rightarrow> AnchorFusionEngine" where
  "updateAnchors nextAnchors frame nowMs eng =
     (let incomingIds = set (map id' nextAnchors);
          kept = filter (\<lambda>(i, b). \<not> (i \<notin> incomingIds \<and> nowMs - lastSeenAt b > maxStaleMs eng))
                   (bindings eng)
      in eng\<lparr>bindings := foldl (bindAnchor (reacquireDistanceSq eng) frame nowMs) kept nextAnchors\<rparr>)"

text \<open>
  \<open>Array.prototype.sort(comparefn)\<close>: a stable sort; \<open>comparefn a b > 0\<close> puts
  \<open>b\<close> before \<open>a\<close>. It is modelled as the stable insertion sort, which is what every
  engine computes when the comparator is a consistent order.
\<close>

fun insertBy :: "('a \<Rightarrow> 'a \<Rightarrow> real) \<Rightarrow> 'a \<Rightarrow> 'a list \<Rightarrow> 'a list" where
  "insertBy cmp x [] = [x]"
| "insertBy cmp x (y # ys) = (if cmp x y > 0 then y # insertBy cmp x ys else x # y # ys)"

definition sortBy :: "('a \<Rightarrow> 'a \<Rightarrow> real) \<Rightarrow> 'a list \<Rightarrow> 'a list" where
  "sortBy cmp xs = foldr (insertBy cmp) xs []"

text \<open>
  The projected point of one binding: the \<open>if\<close> chain of \<open>project\<close>. The last branch
  reads \<open>frame.points[fallbackIndex].point\<close>, where \<open>fallbackIndex\<close> is the \<open>index\<close>
  field of the nearest landmark: when the array has no element at that position the read
  throws a \<open>TypeError\<close>.
\<close>

datatype fusionError = TypeError

definition projectPoint :: "TrackedFaceFrame option \<Rightarrow> AnchorBinding \<Rightarrow> fusionError + NormalizedPoint" where
  "projectPoint frame b =
     (case frame of
        None \<Rightarrow> Inr (point (anchor b))
      | Some f \<Rightarrow>
          if facialPart (anchor b) \<noteq> unknown \<and> parts f (facialPart (anchor b)) \<noteq> None
          then Inr (the (parts f (facialPart (anchor b))))
          else if landmarkIndex b \<noteq> None \<and> offset b \<noteq> None
                  \<and> elemAt (points f) (the (landmarkIndex b)) \<noteq> None
          then Inr (addOffset (lmPoint (the (elemAt (points f) (the (landmarkIndex b))))) (the (offset b)))
          else (case nearestLandmarkIndex f (point (anchor b)) of
                  Some fallbackIndex \<Rightarrow>
                    (case elemAt (points f) fallbackIndex of
                       Some tp \<Rightarrow> Inr (lmPoint tp)
                     | None \<Rightarrow> Inl TypeError)
                | None \<Rightarrow> Inr (point (anchor b))))"

definition fuse :: "real \<Rightarrow> real \<Rightarrow> AnchorBinding \<Rightarrow> NormalizedPoint \<Rightarrow> FusedAnchor" where
  "fuse maxStale nowMs b p =
     SemanticAnchor.extend (anchor b)
       (FusedAnchor.fields p (nowMs - lastSeenAt b > maxStale * (1/2)))"

text \<open>
  The loop of \<open>project\<close> over the entries of the map, returning what was pushed to
  \<open>projected\<close> (or the error thrown) and the entries left in the map: an expired entry is
  deleted when the loop reaches it, so a throw leaves the later entries untouched.
\<close>

fun projectLoop ::
  "TrackedFaceFrame option \<Rightarrow> real \<Rightarrow> real \<Rightarrow> real \<Rightarrow> (string \<times> AnchorBinding) list
   \<Rightarrow> (fusionError + FusedAnchor list) \<times> (string \<times> AnchorBinding) list" where
  "projectLoop frame nowMs maxAgeMs maxStale [] = (Inr [], [])"
| "projectLoop frame nowMs maxAgeMs maxStale ((i, b) # rest) =
     (if nowMs - lastSeenAt b > maxAgeMs
      then projectLoop frame nowMs maxAgeMs maxStale rest
      else (case projectPoint frame b of
              Inl e \<Rightarrow> (Inl e, (i, b) # rest)
            | Inr p \<Rightarrow>
                (case projectLoop frame nowMs maxAgeMs maxStale rest of
                   (Inl e, rest') \<Rightarrow> (Inl e, (i, b) # rest')
                 | (Inr projected, rest') \<Rightarrow>
                     (Inr (fuse maxStale nowMs b p # projected), (i, b) # rest'))))"

definition maxAgeFor :: "ProjectOptions \<Rightarrow> AnchorFusionEngine \<Rightarrow> real" where
  "maxAgeFor options eng =
     (if preserveStale options = Some True then hardMaxStaleMs eng else maxStaleMs eng)"

definition project ::
  "TrackedFaceFrame option \<Rightarrow> real \<Rightarrow> ProjectOptions \<Rightarrow> AnchorFusionEngine
   \<Rightarrow> (fusionError + FusedAnchor list) \<times> AnchorFusionEngine" where
  "project frame nowMs options eng =
     (case projectLoop frame nowMs (maxAgeFor options eng) (maxStaleMs eng) (bindings eng) of
        (Inl e, bs) \<Rightarrow> (Inl e, eng\<lparr>bindings := bs\<rparr>)
      | (Inr projected, bs) \<Rightarrow>
          (Inr (sortBy (\<lambda>a b. confidence b - confidence a) projected), eng\<lparr>bindings := bs\<rparr>))"

text \<open>The example scenario: a frame of fourteen landmarks indexed by position, as the tracker builds it.\<close>

definition indexed :: "NormalizedPoint list \<Rightarrow> TrackedLandmark list" where
  "indexed ps = map (\<lambda>(i, p). \<lparr> index = i, lmPoint = p \<rparr>) (enumerate 0 ps)"

definition exampleAnchor :: SemanticAnchor where
  "exampleAnchor = \<lparr> id' = ''emo-happy-mouth-1'', label = ''happy'', kind = KindEmotion,
      facialPart = mouth, point = (700, 500), confidence = 4/5,
      intensity = Some ''high'', explanation = None \<rparr>"

definition exampleFrame :: "NormalizedPoint \<Rightarrow> real \<Rightarrow> TrackedFaceFrame" where
  "exampleFrame p13 t = \<lparr> timestampMs = t,
      points = indexed (replicate 13 (100, 100) @ [p13]),
      parts = Map.empty, faceBox = None, frameConfidence = 1 \<rparr>"

definition namedEngine :: AnchorFusionEngine where
  "namedEngine = \<lparr> bindings = [(''emo-happy-mouth-1'',
        \<lparr> anchor = exampleAnchor, landmarkIndex = Some 13, offset = Some (-5, 2), lastSeenAt = 1000 \<rparr>)],
      maxStaleMs = 4500, hardMaxStaleMs = 30000, reacquireDistanceSq = 16900 \<rparr>"

definition mouthFrame :: TrackedFaceFrame where
  "mouthFrame = \<lparr> timestampMs = 1033, points = indexed [(650, 480)],
      parts = [mouth \<mapsto> (640, 470)], faceBox = None, frameConfidence = 1 \<rparr>"

definition agedEngine :: AnchorFusionEngine where
  "agedEngine = namedEngine\<lparr> bindings :=
      (''depth-0-pallor'',
        \<lparr> anchor = \<lparr> id' = ''depth-0-pallor'', label = ''pallor'', kind = KindDepth,
                      facialPart = unknown, point = (300, 300), confidence = 1/2,
                      intensity = None, explanation = None \<rparr>,
          landmarkIndex = None, offset = Some (0, 0), lastSeenAt = -9000 \<rparr>)
      # bindings namedEngine \<rparr>"

section \<open>services/gemini: untyped values and the result sanitizers\<close>

text \<open>
  The sanitizers take \<open>raw: unknown\<close>, the value \<open>JSON.parse\<close> returned. A value of
  the language is modelled by \<open>jsvalue\<close>; a number may be \<open>NaN\<close> or infinite
  (\<open>JSON.parse("1e999")\<close> is \<open>Infinity\<close>). A string is the list of its code units, of
  which the model has the first 256 (Latin-1).
\<close>

datatype jsnum = Finite real | PosInfinity | NegInfinity | NaN

datatype jsvalue =
    JUndefined
  | JNull
  | JBool bool
  | JNumber jsnum
  | JString string
  | JArray "jsvalue list"
  | JObject "(string \<times> jsvalue) list"

text \<open>\<open>Boolean(v)\<close>, and \<open>typeof v === "object"\<close>.\<close>

fun truthy :: "jsvalue \<Rightarrow> bool" where
  "truthy JUndefined = False"
| "truthy JNull = False"
| "truthy (JBool b) = b"
| "truthy (JNumber n) = (n \<noteq> Finite 0 \<and> n \<noteq> NaN)"
| "truthy (JString s) = (s \<noteq> [])"
| "truthy (JArray xs) = True"
| "truthy (JObject kvs) = True"

fun typeofObject :: "jsvalue \<Rightarrow> bool" where
  "typeofObject JNull = True"
| "typeofObject (JArray xs) = True"
| "typeofObject (JObject kvs) = True"
| "typeofObject v = False"

text \<open>
  \<open>record?.key\<close> and \<open>source.key\<close> for the keys the sanitizers read: the own property
  of an object, \<open>undefined\<close> on everything else (no prototype of a primitive or of an array
  has one of these keys; the sanitizers read \<open>source.key\<close> only after the check that
  \<open>raw\<close> is truthy and of type object, and \<open>item.key\<close> through \<open>?.\<close>).
\<close>

fun getProp :: "jsvalue \<Rightarrow> string \<Rightarrow> jsvalue" where
  "getProp (JObject kvs) k = (case map_of kvs k of Some v \<Rightarrow> v | None \<Rightarrow> JUndefined)"
| "getProp v k = JUndefined"

definition isWhiteSpace :: "char \<Rightarrow> bool" where
  "isWhiteSpace c = ((of_char c :: nat) \<in> {9, 10, 11, 12, 13, 32, 160})"

definition trim :: "string \<Rightarrow> string" where
  "trim s = rev (dropWhile isWhiteSpace (rev (dropWhile isWhiteSpace s)))"

definition lowerChar :: "char \<Rightarrow> char" where
  "lowerChar c =
     (let n = (of_char c :: nat) in
      if (65 \<le> n \<and> n \<le> 90) \<or> (192 \<le> n \<and> n \<le> 222 \<and> n \<noteq> 215) then char_of (n + 32) else c)"

definition toLowerCase :: "string \<Rightarrow> string" where
  "toLowerCase s = map lowerChar s"

text \<open>\<open>s.replace(/\s+/g, "-")\<close>: the flag says whether the previous unit was white space.\<close>

fun replaceWsFrom :: "bool \<Rightarrow> string \<Rightarrow> string" where
  "replaceWsFrom inRun [] = []"
| "replaceWsFrom inRun (c # cs) =
     (if isWhiteSpace c
      then (if inRun then replaceWsFrom True cs else CHR ''-'' # replaceWsFrom True cs)
      else c # replaceWsFrom False cs)"

definition replaceWhiteSpace :: "string \<Rightarrow> string" where
  "replaceWhiteSpace s = replaceWsFrom False s"

text \<open>The decimal text of a natural number, as a template literal prints it.\<close>

fun showNat :: "nat \<Rightarrow> string" where
  "showNat n = (if n < 10 then [''0123456789'' ! n]
                else showNat (n div 10) @ [''0123456789'' ! (n mod 10)])"

declare showNat.simps [simp del]

text \<open>\<open>Math.round\<close>: the nearest integer, a half rounding up.\<close>

definition mathRound :: "real \<Rightarrow> real" where
  "mathRound x = of_int \<lfloor>x + 1/2\<rfloor>"

definition isNumber :: "jsvalue \<Rightarrow> bool" where
  "isNumber v = (case v of JNumber (Finite r) \<Rightarrow> True | _ \<Rightarrow> False)"

definition numberOf :: "jsvalue \<Rightarrow> real" where
  "numberOf v = (case v of JNumber (Finite r) \<Rightarrow> r | _ \<Rightarrow> 0)"

text \<open>
  \<open>toConfidence\<close>. \<open>Number(text)\<close> of a trimmed, non-empty string is the parameter
  \<open>N\<close>: the numeric grammar of the language is not part of this program.
\<close>

definition toConfidence :: "(string \<Rightarrow> jsnum) \<Rightarrow> jsvalue \<Rightarrow> real \<Rightarrow> real" where
  "toConfidence N v fallback =
     (if isNumber v then clamp (numberOf v) 0 1
      else (case v of
              JString s \<Rightarrow>
                if trim s \<noteq> [] then
                  (case N (trim s) of Finite parsed \<Rightarrow> clamp parsed 0 1 | _ \<Rightarrow> fallback)
                else fallback
            | _ \<Rightarrow> fallback))"

definition toPoint :: "jsvalue \<Rightarrow> NormalizedPoint \<Rightarrow> NormalizedPoint" where
  "toPoint v fallback =
     (case v of
        JArray xs \<Rightarrow>
          if length xs < 2 then fallback
          else (if isNumber (xs ! 0) then clamp (mathRound (numberOf (xs ! 0))) 0 1000 else fst fallback,
                if isNumber (xs ! 1) then clamp (mathRound (numberOf (xs ! 1))) 0 1000 else snd fallback)
      | _ \<Rightarrow> fallback)"

definition toFaceBox :: "jsvalue \<Rightarrow> NormalizedFaceBox option" where
  "toFaceBox v =
     (case v of
        JArray xs \<Rightarrow>
          if length xs < 4 then None
          else (let ymin = (if isNumber (xs ! 0) then clamp (mathRound (numberOf (xs ! 0))) 0 1000 else 0);
                    xmin = (if isNumber (xs ! 1) then clamp (mathRound (numberOf (xs ! 1))) 0 1000 else 0);
                    ymax = (if isNumber (xs ! 2) then clamp (mathRound (numberOf (xs ! 2))) 0 1000 else 1000);
                    xmax = (if isNumber (xs ! 3) then clamp (mathRound (numberOf (xs ! 3))) 0 1000 else 1000)
                in if ymax \<le> ymin \<or> xmax \<le> xmin then None else Some (ymin, xmin, ymax, xmax))
      | _ \<Rightarrow> None)"

definition toStringOrFallback :: "jsvalue \<Rightarrow> string \<Rightarrow> string" where
  "toStringOrFallback v fallback =
     (case v of JString s \<Rightarrow> if trim s \<noteq> [] then trim s else fallback | _ \<Rightarrow> fallback)"

definition partNames :: "(string \<times> FacialPartHint) list" where
  "partNames =
     [(''leftEye'', leftEye), (''rightEye'', rightEye), (''leftEyeInner'', leftEyeInner),
      (''rightEyeInner'', rightEyeInner), (''nose'', nose), (''leftNoseHole'', leftNoseHole),
      (''rightNoseHole'', rightNoseHole), (''mouth'', mouth), (''mouthLeft'', mouthLeft),
      (''mouthRight'', mouthRight), (''mouthUpper'', mouthUpper), (''mouthLower'', mouthLower),
      (''leftBrow'', leftBrow), (''rightBrow'', rightBrow), (''leftBrowInner'', leftBrowInner),
      (''rightBrowInner'', rightBrowInner), (''chin'', chin), (''forehead'', forehead),
      (''leftCheek'', leftCheek), (''rightCheek'', rightCheek), (''faceCenter'', faceCenter)]"

definition toFacialPart :: "jsvalue \<Rightarrow> FacialPartHint" where
  "toFacialPart v =
     (let normalized = (case v of JString s \<Rightarrow> trim s | _ \<Rightarrow> [])
      in case map_of partNames normalized of Some part \<Rightarrow> part | None \<Rightarrow> unknown)"

text \<open>The text of a facial part inside a template literal.\<close>

fun partName :: "FacialPartHint \<Rightarrow> string" where
  "partName leftEye = ''leftEye''" | "partName rightEye = ''rightEye''"
| "partName leftEyeInner = ''leftEyeInner''" | "partName rightEyeInner = ''rightEyeInner''"
| "partName nose = ''nose''" | "partName leftNoseHole = ''leftNoseHole''"
| "partName rightNoseHole = ''rightNoseHole''" | "partName mouth = ''mouth''"
| "partName mouthLeft = ''mouthLeft''" | "partName mouthRight = ''mouthRight''"
| "partName mouthUpper = ''mouthUpper''" | "partName mouthLower = ''mouthLower''"
| "partName leftBrow = ''leftBrow''" | "partName rightBrow = ''rightBrow''"
| "partName leftBrowInner = ''leftBrowInner''" | "partName rightBrowInner = ''rightBrowInner''"
| "partName chin = ''chin''" | "partName forehead = ''forehead''"
| "partName leftCheek = ''leftCheek''" | "partName rightCheek = ''rightCheek''"
| "partName faceCenter = ''faceCenter''" | "partName unknown = ''unknown''"

text \<open>The table has no entry for \<open>unknown\<close>, and \<open>defaultPointForPart\<close> never reads one.\<close>

fun FACIAL_PART_DEFAULT_POINTS :: "FacialPartHint \<Rightarrow> NormalizedPoint" where
  "FACIAL_PART_DEFAULT_POINTS leftEye = (370, 330)"
| "FACIAL_PART_DEFAULT_POINTS rightEye = (370, 670)"
| "FACIAL_PART_DEFAULT_POINTS leftEyeInner = (375, 430)"
| "FACIAL_PART_DEFAULT_POINTS rightEyeInner = (375, 570)"
| "FACIAL_PART_DEFAULT_POINTS nose = (520, 500)"
| "FACIAL_PART_DEFAULT_POINTS leftNoseHole = (555, 460)"
| "FACIAL_PART_DEFAULT_POINTS rightNoseHole = (555, 540)"
| "FACIAL_PART_DEFAULT_POINTS mouth = (700, 500)"
| "FACIAL_PART_DEFAULT_POINTS mouthLeft = (705, 410)"
| "FACIAL_PART_DEFAULT_POINTS mouthRight = (705, 590)"
| "FACIAL_PART_DEFAULT_POINTS mouthUpper = (680, 500)"
| "FACIAL_PART_DEFAULT_POINTS mouthLower = (735, 500)"
| "FACIAL_PART_DEFAULT_POINTS leftBrow = (300, 320)"
| "FACIAL_PART_DEFAULT_POINTS rightBrow = (300, 680)"
| "FACIAL_PART_DEFAULT_POINTS leftBrowInner = (315, 430)"
| "FACIAL_PART_DEFAULT_POINTS rightBrowInner = (315, 570)"
| "FACIAL_PART_DEFAULT_POINTS chin = (880, 500)"
| "FACIAL_PART_DEFAULT_POINTS forehead = (165, 500)"
| "FACIAL_PART_DEFAULT_POINTS leftCheek = (560, 290)"
| "FACIAL_PART_DEFAULT_POINTS rightCheek = (560, 710)"
| "FACIAL_PART_DEFAULT_POINTS faceCenter = (470, 500)"

definition defaultPointForPart :: "FacialPartHint \<Rightarrow> NormalizedPoint" where
  "defaultPointForPart part =
     (if part \<noteq> unknown then FACIAL_PART_DEFAULT_POINTS part else FACIAL_PART_DEFAULT_POINTS faceCenter)"

record HeadPose =
  pitch :: real
  yaw :: real
  roll :: real

record EmotionCandidate =
  emotion :: string
  confidence :: real

record LiteAnalysisResult =
  model :: string
  frameId :: real
  capturedAt :: real
  faceDetected :: bool
  confidence :: real
  primaryEmotion :: string
  primaryConfidence :: real
  moodSentence :: "string option"
  candidates :: "EmotionCandidate list"
  faceBox :: "NormalizedFaceBox option"
  headPose :: "HeadPose option"

record FastEmotion =
  emotion :: string
  intensity :: string
  confidence :: real
  point :: NormalizedPoint
  facialPart :: FacialPartHint
  explanation :: "string option"

record FastLandmark =
  name :: string
  point :: NormalizedPoint
  confidence :: real
  facialPart :: FacialPartHint

record FastAnalysisResult =
  model :: string
  frameId :: real
  capturedAt :: real
  faceDetected :: bool
  confidence :: real
  faceBox :: "NormalizedFaceBox option"
  headPose :: "HeadPose option"
  emotions :: "FastEmotion list"
  landmarks :: "FastLandmark list"
  semanticAnchors :: "SemanticAnchor list"

record DepthInsight =
  keyword :: string
  rationale :: string
  medicalInterpretation :: "string option"
  confidence :: real
  facialPart :: FacialPartHint
  point :: NormalizedPoint

record DepthAnalysisResult =
  model :: string
  frameId :: real
  capturedAt :: real
  confidence :: real
  summary :: string
  insights :: "DepthInsight list"
  semanticAnchors :: "SemanticAnchor list"

record AnalyzeOptions =
  optFrameId :: "real option"
  optCapturedAt :: "real option"
  timeoutMs :: "jsnum option"
  videoClipBase64 :: "string option"
  videoMimeType :: "string option"
  videoDurationMs :: "real option"

definition LITE_MODEL :: string where "LITE_MODEL = ''gemini-2.5-flash-lite''"
definition FLASH_MODEL :: string where "FLASH_MODEL = ''gemini-3-flash-preview''"
definition PRO_MODEL :: string where "PRO_MODEL = ''gemini-3.1-pro-preview''"
definition PRIMARY_EMOTION_MAX_CHARS :: nat where "PRIMARY_EMOTION_MAX_CHARS = 64"

text \<open>
  The loop of \<open>nearestLandmarkPart\<close>; \<open>None\<close> is the initial
  \<open>Number.POSITIVE_INFINITY\<close> and the initial \<open>null\<close>.
\<close>

fun nearestPartLoop ::
  "NormalizedPoint \<Rightarrow> FastLandmark list \<Rightarrow> real option \<Rightarrow> FastLandmark option \<Rightarrow> FastLandmark option" where
  "nearestPartLoop p [] bestDistance best = best"
| "nearestPartLoop p (lm # lms) bestDistance best =
     (let dy = fst p - fst (FastLandmark.point lm);
          dx = snd p - snd (FastLandmark.point lm);
          distance = dy * dy + dx * dx
      in if (case bestDistance of None \<Rightarrow> True | Some b \<Rightarrow> distance < b)
         then nearestPartLoop p lms (Some distance) (Some lm)
         else nearestPartLoop p lms bestDistance best)"

definition nearestLandmarkPart :: "NormalizedPoint \<Rightarrow> FastLandmark list \<Rightarrow> FacialPartHint" where
  "nearestLandmarkPart p lms =
     (if lms = [] then unknown
      else (case nearestPartLoop p lms None None of
              Some best \<Rightarrow> FastLandmark.facialPart best
            | None \<Rightarrow> unknown))"

text \<open>
  The \<open>emotions.map\<close> of \<open>buildFastAnchors\<close>, with the \<open>duplicateCounters\<close> map
  that its callback updates passed along.
\<close>

fun emotionAnchors ::
  "(string \<rightharpoonup> nat) \<Rightarrow> FastLandmark list \<Rightarrow> FastEmotion list \<Rightarrow> SemanticAnchor list" where
  "emotionAnchors duplicateCounters lms [] = []"
| "emotionAnchors duplicateCounters lms (e # es) =
     (let resolvedPart = (if FastEmotion.facialPart e = unknown
                          then nearestLandmarkPart (FastEmotion.point e) lms
                          else FastEmotion.facialPart e);
          emotionKey = replaceWhiteSpace (toLowerCase (FastEmotion.emotion e));
          baseKey = emotionKey @ ''-'' @ partName resolvedPart;
          seen = (case duplicateCounters baseKey of Some n \<Rightarrow> n | None \<Rightarrow> 0);
          stableId = ''emo-'' @ baseKey @ ''-'' @ showNat (seen + 1)
      in \<lparr> id' = stableId,
           label = FastEmotion.emotion e,
           kind = KindEmotion,
           SemanticAnchor.facialPart = resolvedPart,
           SemanticAnchor.point = FastEmotion.point e,
           SemanticAnchor.confidence = FastEmotion.confidence e,
           SemanticAnchor.intensity = Some (FastEmotion.intensity e),
           SemanticAnchor.explanation = FastEmotion.explanation e \<rparr>
         # emotionAnchors (duplicateCounters(baseKey \<mapsto> seen + 1)) lms es)"

definition landmarkAnchors :: "FastLandmark list \<Rightarrow> SemanticAnchor list" where
  "landmarkAnchors lms =
     map (\<lambda>(i, lm).
            \<lparr> id' = ''lm-'' @ showNat i @ ''-'' @ replaceWhiteSpace (toLowerCase (name lm)),
              label = name lm,
              kind = KindLandmark,
              SemanticAnchor.facialPart = FastLandmark.facialPart lm,
              SemanticAnchor.point = FastLandmark.point lm,
              SemanticAnchor.confidence = FastLandmark.confidence lm,
              SemanticAnchor.intensity = None,
              SemanticAnchor.explanation = None \<rparr>)
         (enumerate 0 (take 8 lms))"

definition buildFastAnchors :: "FastEmotion list \<Rightarrow> FastLandmark list \<Rightarrow> SemanticAnchor list" where
  "buildFastAnchors ems lms = emotionAnchors Map.empty lms ems @ landmarkAnchors lms"

definition buildDepthAnchors :: "DepthInsight list \<Rightarrow> SemanticAnchor list" where
  "buildDepthAnchors ins =
     map (\<lambda>(i, insight).
            \<lparr> id' = ''depth-'' @ showNat i @ ''-'' @ replaceWhiteSpace (toLowerCase (keyword insight)),
              label = keyword insight,
              kind = KindDepth,
              SemanticAnchor.facialPart = DepthInsight.facialPart insight,
              SemanticAnchor.point = DepthInsight.point insight,
              SemanticAnchor.confidence = DepthInsight.confidence insight,
              SemanticAnchor.intensity = None,
              SemanticAnchor.explanation = None \<rparr>)
         (enumerate 0 ins)"

text \<open>
  The default results. \<open>now\<close> is what \<open>Date.now()\<close> returns when \<open>capturedAt\<close> is
  absent from the options.
\<close>

definition toDefaultLiteResult :: "real \<Rightarrow> AnalyzeOptions \<Rightarrow> string \<Rightarrow> LiteAnalysisResult" where
  "toDefaultLiteResult now options m =
     \<lparr> LiteAnalysisResult.model = m,
       frameId = (case optFrameId options of Some v \<Rightarrow> v | None \<Rightarrow> 0),
       capturedAt = (case optCapturedAt options of Some v \<Rightarrow> v | None \<Rightarrow> now),
       faceDetected = False,
       confidence = 0,
       primaryEmotion = ''neutral'',
       primaryConfidence = 0,
       moodSentence = Some ''The observed mood appears neutral with low confidence.'',
       candidates = [],
       faceBox = None,
       headPose = None \<rparr>"

definition toDefaultFlashResult :: "real \<Rightarrow> AnalyzeOptions \<Rightarrow> string \<Rightarrow> FastAnalysisResult" where
  "toDefaultFlashResult now options m =
     \<lparr> FastAnalysisResult.model = m,
       frameId = (case optFrameId options of Some v \<Rightarrow> v | None \<Rightarrow> 0),
       capturedAt = (case optCapturedAt options of Some v \<Rightarrow> v | None \<Rightarrow> now),
       faceDetected = False,
       confidence = 0,
       faceBox = None,
       headPose = None,
       emotions = [],
       landmarks = [],
       semanticAnchors = [] \<rparr>"

definition toDefaultDepthResult :: "real \<Rightarrow> AnalyzeOptions \<Rightarrow> string \<Rightarrow> DepthAnalysisResult" where
  "toDefaultDepthResult now options m =
     \<lparr> DepthAnalysisResult.model = m,
       frameId = (case optFrameId options of Some v \<Rightarrow> v | None \<Rightarrow> 0),
       capturedAt = (case optCapturedAt options of Some v \<Rightarrow> v | None \<Rightarrow> now),
       confidence = 0,
       summary = [],
       insights = [],
       semanticAnchors = [] \<rparr>"

text \<open>
  The \<open>headPose\<close> expression, which \<open>sanitizeLiteResult\<close> and \<open>sanitizeFlashResult\<close>
  both write out in full.
\<close>

definition toHeadPose :: "jsvalue \<Rightarrow> HeadPose option" where
  "toHeadPose hp =
     (if truthy hp \<and> typeofObject hp
      then Some \<lparr> pitch = (if isNumber (getProp hp ''pitch'')
                           then clamp (numberOf (getProp hp ''pitch'')) (-90) 90 else 0),
                  yaw = (if isNumber (getProp hp ''yaw'')
                         then clamp (numberOf (getProp hp ''yaw'')) (-90) 90 else 0),
                  roll = (if isNumber (getProp hp ''roll'')
                          then clamp (numberOf (getProp hp ''roll'')) (-90) 90 else 0) \<rparr>
      else None)"

text \<open>\<open>a || b\<close> on strings: the empty string is falsy.\<close>

definition orElse :: "string \<Rightarrow> string \<Rightarrow> string" where
  "orElse a b = (if a \<noteq> [] then a else b)"

definition sanitizeLiteResult ::
  "(string \<Rightarrow> jsnum) \<Rightarrow> real \<Rightarrow> jsvalue \<Rightarrow> AnalyzeOptions \<Rightarrow> string \<Rightarrow> LiteAnalysisResult" where
  "sanitizeLiteResult N now raw options m =
     (if \<not> truthy raw \<or> \<not> typeofObject raw then toDefaultLiteResult now options m
      else
       (let source = raw;
            faceBox = toFaceBox (getProp source ''faceBox'');
            faceDetected = (truthy (getProp source ''faceDetected'') \<or> faceBox \<noteq> None);
            frameConfidence = toConfidence N (getProp source ''confidence'')
                                (if faceDetected then 7/10 else 1/10);
            candidates =
              (case getProp source ''candidates'' of
                 JArray items \<Rightarrow>
                   map (\<lambda>item. \<lparr> EmotionCandidate.emotion = toStringOrFallback (getProp item ''emotion'') ''neutral'',
                                 EmotionCandidate.confidence = toConfidence N (getProp item ''confidence'') (45/100) \<rparr>)
                       (take 6 items)
               | _ \<Rightarrow> []);
            primaryEmotion =
              take PRIMARY_EMOTION_MAX_CHARS
                (orElse (toStringOrFallback (getProp source ''primaryEmotion'') [])
                   (orElse (case candidates of c # _ \<Rightarrow> EmotionCandidate.emotion c | [] \<Rightarrow> [])
                      ''neutral''));
            primaryCandidate =
              find (\<lambda>candidate. toLowerCase (trim (EmotionCandidate.emotion candidate))
                                 = toLowerCase (trim primaryEmotion)) candidates;
            primaryConfidence =
              toConfidence N (getProp source ''primaryConfidence'')
                (case primaryCandidate of
                   Some c \<Rightarrow> EmotionCandidate.confidence c
                 | None \<Rightarrow> (case candidates of c # _ \<Rightarrow> EmotionCandidate.confidence c
                                             | [] \<Rightarrow> frameConfidence));
            moodSentence =
              orElse (take 180 (toStringOrFallback (getProp source ''moodSentence'') []))
                (''The observed mood appears '' @ primaryEmotion @ '' with ''
                   @ showNat (nat \<lfloor>mathRound (primaryConfidence * 100)\<rfloor>) @ ''% confidence.'');
            headPose = toHeadPose (getProp source ''headPose'')
        in \<lparr> LiteAnalysisResult.model = m,
             frameId = (case optFrameId options of Some v \<Rightarrow> v | None \<Rightarrow> 0),
             capturedAt = (case optCapturedAt options of Some v \<Rightarrow> v | None \<Rightarrow> now),
             faceDetected = faceDetected,
             confidence = frameConfidence,
             primaryEmotion = primaryEmotion,
             primaryConfidence = primaryConfidence,
             moodSentence = Some moodSentence,
             candidates = candidates,
             faceBox = faceBox,
             headPose = headPose \<rparr>))"

definition sanitizeFlashResult ::
  "(string \<Rightarrow> jsnum) \<Rightarrow> real \<Rightarrow> jsvalue \<Rightarrow> AnalyzeOptions \<Rightarrow> string \<Rightarrow> FastAnalysisResult" where
  "sanitizeFlashResult N now raw options m =
     (if \<not> truthy raw \<or> \<not> typeofObject raw then toDefaultFlashResult now options m
      else
       (let source = raw;
            landmarks = [];
            emotions =
              (case getProp source ''emotions'' of
                 JArray items \<Rightarrow>
                   map (\<lambda>item.
                          let parsedPart = toFacialPart (getProp item ''facialPart'');
                              facialPart = (if parsedPart = unknown then faceCenter else parsedPart)
                          in \<lparr> FastEmotion.emotion = toStringOrFallback (getProp item ''emotion'') ''neutral'',
                               FastEmotion.intensity = toStringOrFallback (getProp item ''intensity'') ''low'',
                               FastEmotion.confidence = toConfidence N (getProp item ''confidence'') (4/10),
                               FastEmotion.point = toPoint (getProp item ''point'') (defaultPointForPart facialPart),
                               FastEmotion.facialPart = facialPart,
                               FastEmotion.explanation =
                                 (let ex = take 120 (toStringOrFallback (getProp item ''explanation'') [])
                                  in if ex \<noteq> [] then Some ex else None) \<rparr>)
                       (take 6 items)
               | _ \<Rightarrow> []);
            faceBox = toFaceBox (getProp source ''faceBox'');
            faceDetected = (truthy (getProp source ''faceDetected'') \<or> faceBox \<noteq> None
                              \<or> length landmarks > 0);
            headPose = toHeadPose (getProp source ''headPose'');
            result = \<lparr> FastAnalysisResult.model = m,
                       frameId = (case optFrameId options of Some v \<Rightarrow> v | None \<Rightarrow> 0),
                       capturedAt = (case optCapturedAt options of Some v \<Rightarrow> v | None \<Rightarrow> now),
                       faceDetected = faceDetected,
                       confidence = toConfidence N (getProp source ''confidence'')
                                      (if faceDetected then 6/10 else 1/10),
                       faceBox = faceBox,
                       headPose = headPose,
                       emotions = emotions,
                       landmarks = landmarks,
                       semanticAnchors = [] \<rparr>
        in result\<lparr> FastAnalysisResult.semanticAnchors :=
                     buildFastAnchors (FastAnalysisResult.emotions result) (FastAnalysisResult.landmarks result) \<rparr>))"

definition sanitizeDepthResult ::
  "(string \<Rightarrow> jsnum) \<Rightarrow> real \<Rightarrow> jsvalue \<Rightarrow> AnalyzeOptions \<Rightarrow> string \<Rightarrow> DepthAnalysisResult" where
  "sanitizeDepthResult N now raw options m =
     (if \<not> truthy raw \<or> \<not> typeofObject raw then toDefaultDepthResult now options m
      else
       (let source = raw;
            insights =
              (case getProp source ''insights'' of
                 JArray items \<Rightarrow>
                   map (\<lambda>item.
                          \<lparr> keyword = toStringOrFallback (getProp item ''keyword'') ''neutral'',
                            rationale = toStringOrFallback (getProp item ''rationale'') [],
                            medicalInterpretation =
                              Some (toStringOrFallback (getProp item ''medicalInterpretation'') []),
                            DepthInsight.confidence = toConfidence N (getProp item ''confidence'') (34/100),
                            DepthInsight.facialPart = toFacialPart (getProp item ''facialPart''),
                            DepthInsight.point = toPoint (getProp item ''point'') (500, 500) \<rparr>)
                       (take 10 items)
               | _ \<Rightarrow> []);
            result = \<lparr> DepthAnalysisResult.model = m,
                       frameId = (case optFrameId options of Some v \<Rightarrow> v | None \<Rightarrow> 0),
                       capturedAt = (case optCapturedAt options of Some v \<Rightarrow> v | None \<Rightarrow> now),
                       confidence = toConfidence N (getProp source ''confidence'')
                                      (if insights \<noteq> [] then 56/100 else 1/10),
                       summary = toStringOrFallback (getProp source ''summary'') [],
                       insights = insights,
                       semanticAnchors = [] \<rparr>
        in result\<lparr> DepthAnalysisResult.semanticAnchors := buildDepthAnchors (DepthAnalysisResult.insights result) \<rparr>))"

section \<open>The documented bounds of the sanitized results\<close>

text \<open>
  Confidences lie in \<open>[0,1]\<close>, the coordinates of points and face boxes in \<open>[0,1000]\<close>,
  head-pose angles in \<open>[-90,90]\<close>; at most 6 candidates or emotions, at most 10 insights.
\<close>

definition inRange :: "real \<Rightarrow> real \<Rightarrow> real \<Rightarrow> bool" where
  "inRange lo hi x = (lo \<le> x \<and> x \<le> hi)"

definition inGrid :: "NormalizedPoint \<Rightarrow> bool" where
  "inGrid p = (inRange 0 1000 (fst p) \<and> inRange 0 1000 (snd p))"

definition boxInGrid :: "NormalizedFaceBox option \<Rightarrow> bool" where
  "boxInGrid box = (case box of None \<Rightarrow> True
     | Some (ymin, xmin, ymax, xmax) \<Rightarrow>
         inRange 0 1000 ymin \<and> inRange 0 1000 xmin \<and> inRange 0 1000 ymax \<and> inRange 0 1000 xmax)"

definition poseInRange :: "HeadPose option \<Rightarrow> bool" where
  "poseInRange pose = (case pose of None \<Rightarrow> True
     | Some hp \<Rightarrow> inRange (-90) 90 (pitch hp) \<and> inRange (-90) 90 (yaw hp) \<and> inRange (-90) 90 (roll hp))"

definition anchorWithinBounds :: "SemanticAnchor \<Rightarrow> bool" where
  "anchorWithinBounds a = (inRange 0 1 (SemanticAnchor.confidence a) \<and> inGrid (SemanticAnchor.point a))"

definition liteWithinBounds :: "LiteAnalysisResult \<Rightarrow> bool" where
  "liteWithinBounds r =
     (inRange 0 1 (LiteAnalysisResult.confidence r)
      \<and> inRange 0 1 (primaryConfidence r)
      \<and> length (candidates r) \<le> 6
      \<and> (\<forall>c\<in>set (candidates r). inRange 0 1 (EmotionCandidate.confidence c))
      \<and> boxInGrid (LiteAnalysisResult.faceBox r)
      \<and> poseInRange (LiteAnalysisResult.headPose r))"

definition flashWithinBounds :: "FastAnalysisResult \<Rightarrow> bool" where
  "flashWithinBounds r =
     (inRange 0 1 (FastAnalysisResult.confidence r)
      \<and> length (emotions r) \<le> 6
      \<and> (\<forall>e\<in>set (emotions r). inRange 0 1 (FastEmotion.confidence e) \<and> inGrid (FastEmotion.point e))
      \<and> (\<forall>l\<in>set (landmarks r). inRange 0 1 (FastLandmark.confidence l) \<and> inGrid (FastLandmark.point l))
      \<and> (\<forall>a\<in>set (FastAnalysisResult.semanticAnchors r). anchorWithinBounds a)
      \<and> boxInGrid (FastAnalysisResult.faceBox r)
      \<and> poseInRange (FastAnalysisResult.headPose r))"

definition depthWithinBounds :: "DepthAnalysisResult \<Rightarrow> bool" where
  "depthWithinBounds r =
     (inRange 0 1 (DepthAnalysisResult.confidence r)
      \<and> length (insights r) \<le> 10
      \<and> (\<forall>i\<in>set (insights r). inRange 0 1 (DepthInsight.confidence i) \<and> inGrid (DepthInsight.point i))
      \<and> (\<forall>a\<in>set (DepthAnalysisResult.semanticAnchors r). anchorWithinBounds a))"

text \<open>
  Names for the three list expressions of the sanitizers (\<open>candidates\<close>, \<open>emotions\<close>,
  \<open>insights\<close>), as functions of the property they read.
\<close>

definition liteCandidates :: "(string \<Rightarrow> jsnum) \<Rightarrow> jsvalue \<Rightarrow> EmotionCandidate list" where
  "liteCandidates N v = (case v of
                 JArray items \<Rightarrow>
                   map (\<lambda>item. \<lparr> EmotionCandidate.emotion = toStringOrFallback (getProp item ''emotion'') ''neutral'',
                                 EmotionCandidate.confidence = toConfidence N (getProp item ''confidence'') (45/100) \<rparr>)
                       (take 6 items)
               | _ \<Rightarrow> [])"

definition flashEmotions :: "(string \<Rightarrow> jsnum) \<Rightarrow> jsvalue \<Rightarrow> FastEmotion list" where
  "flashEmotions N v =
     (case v of
                 JArray items \<Rightarrow>
                   map (\<lambda>item.
                          let parsedPart = toFacialPart (getProp item ''facialPart'');
                              facialPart = (if parsedPart = unknown then faceCenter else parsedPart)
                          in \<lparr> FastEmotion.emotion = toStringOrFallback (getProp item ''emotion'') ''neutral'',
                               FastEmotion.intensity = toStringOrFallback (getProp item ''intensity'') ''low'',
                               FastEmotion.confidence = toConfidence N (getProp item ''confidence'') (4/10),
                               FastEmotion.point = toPoint (getProp item ''point'') (defaultPointForPart facialPart),
                               FastEmotion.facialPart = facialPart,
                               FastEmotion.explanation =
                                 (let ex = take 120 (toStringOrFallback (getProp item ''explanation'') [])
                                  in if ex \<noteq> [] then Some ex else None) \<rparr>)
                       (take 6 items)
               | _ \<Rightarrow> [])"

definition depthInsights :: "(string \<Rightarrow> jsnum) \<Rightarrow> jsvalue \<Rightarrow> DepthInsight list" where
  "depthInsights N v =
     (case v of
                 JArray items \<Rightarrow>
                   map (\<lambda>item.
                          \<lparr> keyword = toStringOrFallback (getProp item ''keyword'') ''neutral'',
                            rationale = toStringOrFallback (getProp item ''rationale'') [],
                            medicalInterpretation =
                              Some (toStringOrFallback (getProp item ''medicalInterpretation'') []),
                            DepthInsight.confidence = toConfidence N (getProp item ''confidence'') (34/100),
                            DepthInsight.facialPart = toFacialPart (getProp item ''facialPart''),
                            DepthInsight.point = toPoint (getProp item ''point'') (500, 500) \<rparr>)
                       (take 10 items)
               | _ \<Rightarrow> [])"

section \<open>Example inputs of the sanitizers\<close>

definition noOptions :: AnalyzeOptions where
  "noOptions = \<lparr> optFrameId = None, optCapturedAt = None, timeoutMs = None,
       videoClipBase64 = None, videoMimeType = None, videoDurationMs = None \<rparr>"

definition num :: "real \<Rightarrow> jsvalue" where "num r = JNumber (Finite r)"

definition badRaw :: jsvalue where
  "badRaw = JObject
     [(''confidence'', num 7),
      (''faceBox'', JArray [num (-5), num 20, num 2000, JNumber PosInfinity]),
      (''headPose'', JObject [(''pitch'', num 120), (''yaw'', JString ''left''), (''roll'', num (-400))]),
      (''primaryConfidence'', JString ''high''),
      (''candidates'', JArray [JObject [(''emotion'', JString '' Happy ''), (''confidence'', num (-3))],
                               JNull, JNumber NaN, JString ''sad'', JArray [], JObject [],
                               JObject [(''confidence'', num 2)], JBool True]),
      (''emotions'', JArray [JObject [(''emotion'', JString ''happy''), (''confidence'', num 5),
                                      (''point'', JArray [num (-40), num (24693/20)])],
                             JNull]),
      (''insights'', JArray [JObject [(''keyword'', JString ''pallor''), (''confidence'', num (-1)),
                                      (''point'', JArray [num 1001, JString ''x''])]])]"

definition unknownPartRaw :: jsvalue where
  "unknownPartRaw = JObject
     [(''faceDetected'', JBool True),
      (''emotions'', JArray [JObject [(''emotion'', JString ''happy''), (''facialPart'', JString ''unknown''),
                                      (''point'', JArray [num 700, num 500])]]),
      (''landmarks'', JArray [JObject [(''name'', JString ''upper lip''), (''facialPart'', JString ''mouth''),
                                       (''point'', JArray [num 690, num 505])],
                              JObject [(''name'', JString ''left eye''), (''facialPart'', JString ''leftEye''),
                                       (''point'', JArray [num 370, num 330])]])]"

text \<open>
  The landmark list of a raw response, as the spec's sentence on unknown facial parts
  speaks of it (``that response's own landmark list''): no function of the program reads
  the \<open>landmarks\<close> property, so this reader exists on the side of the spec only. It
  reads each entry with the program's own field readers.
\<close>

definition spec_responseLandmarks :: "(string \<Rightarrow> jsnum) \<Rightarrow> jsvalue \<Rightarrow> FastLandmark list" where
  "spec_responseLandmarks N raw =
     (case getProp raw ''landmarks'' of
        JArray items \<Rightarrow>
          map (\<lambda>item. \<lparr> name = toStringOrFallback (getProp item ''name'') ''landmark'',
                        FastLandmark.point = toPoint (getProp item ''point'') (500, 500),
                        FastLandmark.confidence = toConfidence N (getProp item ''confidence'') (1/2),
                        FastLandmark.facialPart = toFacialPart (getProp item ''facialPart'') \<rparr>) items
      | _ \<Rightarrow> [])"

section \<open>services/gemini: the model gate and the fallback orchestrator\<close>

definition LITE_FALLBACK_MODELS :: "string list" where
  "LITE_FALLBACK_MODELS = [''gemini-2.5-flash'', ''gemini-3-flash-preview'']"
definition FLASH_FALLBACK_MODELS :: "string list" where
  "FLASH_FALLBACK_MODELS = [''gemini-3-flash-preview'']"
definition PRO_FALLBACK_MODELS :: "string list" where
  "PRO_FALLBACK_MODELS = [''gemini-3.1-pro-preview'']"

definition LITE_TIMEOUT_MS :: real where "LITE_TIMEOUT_MS = 6500"
definition FLASH_TIMEOUT_MS :: real where "FLASH_TIMEOUT_MS = 9000"
definition PRO_TIMEOUT_MS :: real where "PRO_TIMEOUT_MS = 120000"

definition LITE_COOLDOWN_MS :: real where "LITE_COOLDOWN_MS = 450"
definition FLASH_COOLDOWN_MS :: real where "FLASH_COOLDOWN_MS = 3200"
definition PRO_COOLDOWN_MS :: real where "PRO_COOLDOWN_MS = 45000"
definition GATE_POLL_MS :: real where "GATE_POLL_MS = 24"
definition GATE_MAX_WAIT_MS :: real where "GATE_MAX_WAIT_MS = 16000"

datatype LaneName = lite | flash | pro

record ModelGate =
  inFlight :: bool
  lastCompletedAt :: real

text \<open>
  The state the orchestrator works on: the two module-level registries \<open>gates\<close> and
  \<open>resolvedLaneModels\<close>, and the clock that \<open>Date.now()\<close> reads.
\<close>

record World =
  clock :: real
  gates :: "string \<rightharpoonup> ModelGate"
  resolvedLaneModels :: "LaneName \<rightharpoonup> string"

text \<open>
  A regular expression that is an alternation of literals, tested with the flag \<open>i\<close>:
  some literal occurs in the lower-cased text.
\<close>

fun startsWith :: "string \<Rightarrow> string \<Rightarrow> bool" where
  "startsWith [] s = True"
| "startsWith (p # ps) [] = False"
| "startsWith (p # ps) (c # cs) = (p = c \<and> startsWith ps cs)"

fun containsStr :: "string \<Rightarrow> string \<Rightarrow> bool" where
  "containsStr pat [] = (pat = [])"
| "containsStr pat (c # cs) = (startsWith pat (c # cs) \<or> containsStr pat cs)"

definition testAnyCI :: "string list \<Rightarrow> string \<Rightarrow> bool" where
  "testAnyCI pats s = list_ex (\<lambda>pat. containsStr pat (toLowerCase s)) pats"

definition cooldownForModel :: "string \<Rightarrow> real" where
  "cooldownForModel m =
     (if testAnyCI [''flash-lite''] m then LITE_COOLDOWN_MS
      else if testAnyCI [''pro''] m then PRO_COOLDOWN_MS
      else if testAnyCI [''flash''] m then FLASH_COOLDOWN_MS
      else FLASH_COOLDOWN_MS)"

text \<open>\<open>getGate\<close> creates the gate of a model on first use.\<close>

definition getGate :: "string \<Rightarrow> World \<Rightarrow> ModelGate \<times> World" where
  "getGate m w =
     (case gates w m of
        Some g \<Rightarrow> (g, w)
      | None \<Rightarrow> (\<lparr> inFlight = False, lastCompletedAt = 0 \<rparr>,
                 w\<lparr> gates := (gates w)(m \<mapsto> \<lparr> inFlight = False, lastCompletedAt = 0 \<rparr>) \<rparr>))"

text \<open>
  A thrown value is a value of the language; an \<open>Error\<close> is the object with its
  \<open>message\<close>.
\<close>

type_synonym thrown = jsvalue

definition newError :: "string \<Rightarrow> thrown" where
  "newError msg = JObject [(''message'', JString msg)]"

text \<open>
  One turn of the \<open>while (true)\<close> of \<open>acquireGate\<close>, up to its \<open>await sleep\<close>: the
  gate is granted, or the turn throws, or it asks to sleep. Nothing else runs during a
  turn (one thread, no \<open>await\<close> inside it), so the test and the assignment
  \<open>gate.inFlight = true\<close> are one step.
\<close>

datatype pollResult = Granted | GateTimedOut | Sleep real

definition acquireStep :: "string \<Rightarrow> real \<Rightarrow> World \<Rightarrow> pollResult \<times> World" where
  "acquireStep m startedAt w0 =
     (let (gate, w) = getGate m w0;
          cooldown = cooldownForModel m
      in if \<not> inFlight gate then
           (let elapsed = clock w - lastCompletedAt gate in
            if elapsed \<ge> cooldown
            then (Granted, w\<lparr> gates := (gates w)(m \<mapsto> gate\<lparr> inFlight := True \<rparr>) \<rparr>)
            else (Sleep (min (max (cooldown - elapsed) GATE_POLL_MS) 400), w))
         else if clock w - startedAt > GATE_MAX_WAIT_MS then (GateTimedOut, w)
         else (Sleep GATE_POLL_MS, w))"

definition releaseGate :: "string \<Rightarrow> World \<Rightarrow> World" where
  "releaseGate m w0 =
     (let (gate, w) = getGate m w0
      in w\<lparr> gates := (gates w)(m \<mapsto> gate\<lparr> inFlight := False, lastCompletedAt := clock w \<rparr>) \<rparr>)"

text \<open>
  What the program awaits is not part of it. \<open>sleepFor env ms\<close> is the world after
  \<open>await sleep(ms)\<close>: time has passed and other calls may have run. \<open>callModel env\<close>
  is the awaited \<open>withTimeout(getClient().models.generateContent(...), timeoutMs, label)\<close>:
  the text of the response (\<open>undefined\<close> is \<open>None\<close>) or the value thrown, a timeout
  among them, and the world after it. \<open>parseNumber\<close> is \<open>Number\<close> on strings and
  \<open>jsonParse\<close> is \<open>JSON.parse\<close>, \<open>None\<close> where it throws.
\<close>

record Request =
  reqLane :: LaneName
  reqLabel :: string
  reqModel :: string
  reqImage :: string
  reqVideo :: "(string \<times> string) option"
  reqTimeoutMs :: real

record Env =
  sleepFor :: "real \<Rightarrow> World \<Rightarrow> World"
  callModel :: "Request \<Rightarrow> World \<Rightarrow> (thrown + string option) \<times> World"
  parseNumber :: "string \<Rightarrow> jsnum"
  jsonParse :: "string \<Rightarrow> jsvalue option"

text \<open>
  The loop of \<open>acquireGate\<close>. It returns when a turn grants the gate or throws; where
  every turn sleeps it does not return, and the value is \<open>None\<close>.
\<close>

partial_function (option) acquireLoop ::
  "Env \<Rightarrow> string \<Rightarrow> real \<Rightarrow> World \<Rightarrow> ((thrown + unit) \<times> World) option" where
  "acquireLoop env m startedAt w =
     (case acquireStep m startedAt w of
        (Granted, w') \<Rightarrow> Some (Inr (), w')
      | (GateTimedOut, w') \<Rightarrow> Some (Inl (newError (''Model '' @ m @ '' gate wait timed out'')), w')
      | (Sleep ms, w') \<Rightarrow> acquireLoop env m startedAt (sleepFor env ms w'))"

definition acquireGate :: "Env \<Rightarrow> string \<Rightarrow> World \<Rightarrow> ((thrown + unit) \<times> World) option" where
  "acquireGate env m w = acquireLoop env m (clock w) (snd (getGate m w))"

definition shouldFallbackModelError :: "thrown \<Rightarrow> bool" where
  "shouldFallbackModelError error =
     (if \<not> truthy error \<or> \<not> typeofObject error then False
      else
       (let status = (case getProp error ''status'' of JNumber n \<Rightarrow> Some n | _ \<Rightarrow> None);
            message = (case getProp error ''message'' of JString s \<Rightarrow> toLowerCase s | _ \<Rightarrow> []);
            code = (case getProp error ''code'' of JString s \<Rightarrow> toLowerCase s | _ \<Rightarrow> [])
        in if status = Some (Finite 404) then True
           else if status = Some (Finite 400)
                   \<and> testAnyCI [''model'', ''unknown'', ''unsupported'', ''not found'', ''invalid''] message
                then True
           else if testAnyCI [''model'', ''unknown'', ''unsupported'', ''not found'', ''does not exist'',
                              ''invalid model''] message
                then True
           else if testAnyCI [''not_found'', ''model_not_found'', ''unsupported''] code then True
           else False))"

text \<open>
  \<open>candidateModels\<close>: the sticky model, the preferred one and the fallbacks, the empty
  ones dropped, each kept at its first place (\<open>[...new Set(models)]\<close>).
\<close>

definition candidateModels :: "LaneName \<Rightarrow> string \<Rightarrow> string list \<Rightarrow> World \<Rightarrow> string list" where
  "candidateModels lane preferred fallbacks w =
     (let models = filter (\<lambda>item. item \<noteq> [])
                     ((case resolvedLaneModels w lane of Some r \<Rightarrow> [r] | None \<Rightarrow> [])
                      @ preferred # fallbacks)
      in rev (remdups (rev models)))"

text \<open>
  The \<open>for\<close> loop of \<open>generateWithLaneFallback\<close> over the candidates left.
  \<open>await acquireGate(model)\<close> stands before the \<open>try\<close>: what it throws leaves the
  function at once, with no \<open>catch\<close> and no \<open>finally\<close>. The calls of \<open>logApiError\<close>
  only print.
\<close>

fun fallbackLoop ::
  "Env \<Rightarrow> Request \<Rightarrow> string list \<Rightarrow> thrown option \<Rightarrow> World
   \<Rightarrow> ((thrown + string \<times> string) \<times> World) option" where
  "fallbackLoop env req [] lastError w =
     Some (Inl (case lastError of
                  Some e \<Rightarrow> if e = JNull \<or> e = JUndefined
                            then newError (reqLabel req @ '' failed across candidate models'')
                            else e
                | None \<Rightarrow> newError (reqLabel req @ '' failed across candidate models'')), w)"
| "fallbackLoop env req (m # rest) lastError w =
     (case acquireGate env m w of
        None \<Rightarrow> None
      | Some (Inl gateError, w1) \<Rightarrow> Some (Inl gateError, w1)
      | Some (Inr u, w1) \<Rightarrow>
          (case callModel env (req\<lparr> reqModel := m \<rparr>) w1 of
             (Inr text, w2) \<Rightarrow>
               Some (Inr (case text of Some t \<Rightarrow> t | None \<Rightarrow> [], m),
                     releaseGate m (w2\<lparr> resolvedLaneModels := (resolvedLaneModels w2)(reqLane req \<mapsto> m) \<rparr>))
           | (Inl error, w2) \<Rightarrow>
               if \<not> shouldFallbackModelError error
               then Some (Inl error, releaseGate m w2)
               else fallbackLoop env req rest (Some error) (releaseGate m w2)))"

definition generateWithLaneFallback ::
  "Env \<Rightarrow> Request \<Rightarrow> string \<Rightarrow> string list \<Rightarrow> World
   \<Rightarrow> ((thrown + string \<times> string) \<times> World) option" where
  "generateWithLaneFallback env req preferredModel fallbackModels w =
     fallbackLoop env req (candidateModels (reqLane req) preferredModel fallbackModels w) None w"

definition computeTimeoutMs :: "jsnum option \<Rightarrow> real \<Rightarrow> string \<Rightarrow> real \<Rightarrow> real" where
  "computeTimeoutMs explicitTimeoutMs baseTimeoutMs base64Image capTimeoutMs =
     (case explicitTimeoutMs of
        Some (Finite t) \<Rightarrow>
          if t > 0 then mathRound t
          else (let approxBytes = mathRound (real (length base64Image) * 3 / 4) in
                if approxBytes > 380000 then min (baseTimeoutMs + 2400) capTimeoutMs
                else if approxBytes > 240000 then min (baseTimeoutMs + 1200) capTimeoutMs
                else baseTimeoutMs)
      | _ \<Rightarrow>
          (let approxBytes = mathRound (real (length base64Image) * 3 / 4) in
           if approxBytes > 380000 then min (baseTimeoutMs + 2400) capTimeoutMs
           else if approxBytes > 240000 then min (baseTimeoutMs + 1200) capTimeoutMs
           else baseTimeoutMs))"

definition safeJsonParse :: "Env \<Rightarrow> string \<Rightarrow> jsvalue" where
  "safeJsonParse env v =
     (if v = [] then JObject []
      else (case jsonParse env v of Some parsed \<Rightarrow> parsed | None \<Rightarrow> JObject []))"

text \<open>
  The argument objects that the three lane functions pass to
  \<open>generateWithLaneFallback\<close>, with the time-out they compute first.
\<close>

definition liteRequest :: "string \<Rightarrow> AnalyzeOptions \<Rightarrow> Request" where
  "liteRequest base64Image options =
     \<lparr> reqLane = lite, reqLabel = ''Lite primary emotion'', reqModel = LITE_MODEL,
       reqImage = base64Image, reqVideo = None,
       reqTimeoutMs = computeTimeoutMs (timeoutMs options) LITE_TIMEOUT_MS base64Image 9000 \<rparr>"

definition flashRequest :: "string \<Rightarrow> AnalyzeOptions \<Rightarrow> Request" where
  "flashRequest base64Image options =
     \<lparr> reqLane = flash, reqLabel = ''Flash insights'', reqModel = FLASH_MODEL,
       reqImage = base64Image, reqVideo = None,
       reqTimeoutMs = computeTimeoutMs (timeoutMs options) FLASH_TIMEOUT_MS base64Image 16000 \<rparr>"

definition proRequest :: "string \<Rightarrow> AnalyzeOptions \<Rightarrow> Request" where
  "proRequest base64Image options =
     (let baseTimeoutMs = computeTimeoutMs (timeoutMs options) PRO_TIMEOUT_MS base64Image 58000;
          hasClip = (case videoClipBase64 options of Some clip \<Rightarrow> clip \<noteq> [] | None \<Rightarrow> False);
          timeout = (if hasClip then min (baseTimeoutMs + 10000) 72000 else baseTimeoutMs);
          video = (case (videoClipBase64 options, videoMimeType options) of
                     (Some clip, Some mime) \<Rightarrow> if clip \<noteq> [] \<and> mime \<noteq> [] then Some (clip, mime) else None
                   | _ \<Rightarrow> None)
      in \<lparr> reqLane = pro, reqLabel = ''Pro medical interpretation'', reqModel = PRO_MODEL,
           reqImage = base64Image, reqVideo = video, reqTimeoutMs = timeout \<rparr>)"

text \<open>
  The three lane functions: a \<open>try\<close> around the call and the sanitizer, and a
  \<open>catch\<close> that returns the default result. The result is \<open>None\<close> where the call does
  not return.
\<close>

definition analyzeLitePrimaryEmotion ::
  "Env \<Rightarrow> string \<Rightarrow> AnalyzeOptions \<Rightarrow> World \<Rightarrow> (LiteAnalysisResult \<times> World) option" where
  "analyzeLitePrimaryEmotion env base64Image options w =
     (case generateWithLaneFallback env (liteRequest base64Image options)
             LITE_MODEL LITE_FALLBACK_MODELS w of
        None \<Rightarrow> None
      | Some (Inr (text, m), w') \<Rightarrow>
          Some (sanitizeLiteResult (parseNumber env) (clock w') (safeJsonParse env text) options m, w')
      | Some (Inl error, w') \<Rightarrow>
          Some (toDefaultLiteResult (clock w') options
                  (case resolvedLaneModels w' lite of Some r \<Rightarrow> r | None \<Rightarrow> LITE_MODEL), w'))"

definition analyzeFlashInsights ::
  "Env \<Rightarrow> string \<Rightarrow> AnalyzeOptions \<Rightarrow> World \<Rightarrow> (FastAnalysisResult \<times> World) option" where
  "analyzeFlashInsights env base64Image options w =
     (case generateWithLaneFallback env (flashRequest base64Image options)
             FLASH_MODEL FLASH_FALLBACK_MODELS w of
        None \<Rightarrow> None
      | Some (Inr (text, m), w') \<Rightarrow>
          Some (sanitizeFlashResult (parseNumber env) (clock w') (safeJsonParse env text) options m, w')
      | Some (Inl error, w') \<Rightarrow>
          Some (toDefaultFlashResult (clock w') options
                  (case resolvedLaneModels w' flash of Some r \<Rightarrow> r | None \<Rightarrow> FLASH_MODEL), w'))"

definition analyzeDepthInsights ::
  "Env \<Rightarrow> string \<Rightarrow> AnalyzeOptions \<Rightarrow> World \<Rightarrow> (DepthAnalysisResult \<times> World) option" where
  "analyzeDepthInsights env base64Image options w =
     (case generateWithLaneFallback env (proRequest base64Image options)
             PRO_MODEL PRO_FALLBACK_MODELS w of
        None \<Rightarrow> None
      | Some (Inr (text, m), w') \<Rightarrow>
          Some (sanitizeDepthResult (parseNumber env) (clock w') (safeJsonParse env text) options m, w')
      | Some (Inl error, w') \<Rightarrow>
          Some (toDefaultDepthResult (clock w') options
                  (case resolvedLaneModels w' pro of Some r \<Rightarrow> r | None \<Rightarrow> PRO_MODEL), w'))"

text \<open>
  Interleavings of the calls that share the gates: between two turns of one call the
  clock moves on and other calls take turns of \<open>acquireGate\<close> or release a gate.
\<close>

datatype gateEvent = Elapse real | Poll string real | Release string

fun gateEventStep :: "gateEvent \<Rightarrow> World \<Rightarrow> World" where
  "gateEventStep (Elapse d) w = w\<lparr> clock := clock w + d \<rparr>"
| "gateEventStep (Poll m startedAt) w = snd (acquireStep m startedAt w)"
| "gateEventStep (Release m) w = releaseGate m w"

fun passesTime :: "gateEvent \<Rightarrow> bool" where
  "passesTime (Elapse d) = (d \<ge> 0)"
| "passesTime ev = True"

definition runEvents :: "gateEvent list \<Rightarrow> World \<Rightarrow> World" where
  "runEvents evs w = foldl (\<lambda>w ev. gateEventStep ev w) w evs"

text \<open>
  An environment for the examples: every wake-up of a sleeping call comes nine seconds
  late, every call to a model answers with an empty object; and a world in which another
  call holds the gate of the lite model and does not finish.
\<close>

definition lateEnv :: Env where
  "lateEnv = \<lparr> sleepFor = (\<lambda>ms w. w\<lparr> clock := clock w + ms + 9000 \<rparr>),
               callModel = (\<lambda>req w. (Inr (Some ''{}''), w\<lparr> clock := clock w + 800 \<rparr>)),
               parseNumber = (\<lambda>s. NaN),
               jsonParse = (\<lambda>s. if s = ''{}'' then Some (JObject []) else None) \<rparr>"

definition busyWorld :: World where
  "busyWorld = \<lparr> clock = 100000,
                 gates = [LITE_MODEL \<mapsto> \<lparr> inFlight = True, lastCompletedAt = 90000 \<rparr>],
                 resolvedLaneModels = Map.empty \<rparr>"

definition idleWorld :: World where
  "idleWorld = \<lparr> clock = 100000, gates = Map.empty, resolvedLaneModels = Map.empty \<rparr>"

text \<open>
  A world in which the call on the pro model has just finished: its gate is free and its
  cooldown of 45 seconds starts at the clock.
\<close>

definition cooledWorld :: World where
  "cooledWorld = \<lparr> clock = 100000,
                   gates = [PRO_MODEL \<mapsto> \<lparr> inFlight = False, lastCompletedAt = 100000 \<rparr>],
                   resolvedLaneModels = Map.empty \<rparr>"

definition quotaError :: thrown where
  "quotaError = JObject [(''status'', JNumber (Finite 429)), (''message'', JString ''Resource exhausted'')]"

definition failEnv :: Env where
  "failEnv = lateEnv\<lparr> callModel :=
      (\<lambda>req w. (Inl (if reqLane req = flash then quotaError
                       else newError (reqLabel req @ '' timed out after 120000ms'')),
                 w\<lparr> clock := clock w + 500 \<rparr>)) \<rparr>"

text \<open>
  The invariant behind the cooldown: a release of the gate of \<open>m\<close> at time \<open>T\<close> lies
  behind, so the clock and the gate's \<open>lastCompletedAt\<close> are at \<open>T\<close> or later.
\<close>

definition releasedSince :: "string \<Rightarrow> real \<Rightarrow> World \<Rightarrow> bool" where
  "releasedSince m T w = (T \<le> clock w \<and> (\<exists>g. gates w m = Some g \<and> T \<le> lastCompletedAt g))"

section \<open>services/overlay: the label layout engine\<close>

record LabelLayoutInput =
  id' :: string
  text' :: string
  anchorX :: real
  anchorY :: real
  width :: real
  height :: real
  priority :: real
  preferDistance :: "bool option"

record LabelLayoutOutput = LabelLayoutInput +
  x' :: real
  y' :: real

record Bounds =
  width :: real
  height :: real
  padding :: "real option"
  faceCenterX :: "real option"
  faceCenterY :: "real option"

definition OFFSETS :: "(real \<times> real) list" where
  "OFFSETS = [(14, -18), (16, 16), (-16, -18), (-16, 18), (24, 0), (-24, 0), (0, -24), (0, 24)]"

definition EMOTION_OFFSETS :: "(real \<times> real) list" where
  "EMOTION_OFFSETS =
     [(112, -88), (118, -42), (124, 10), (114, 62), (98, 102), (70, 122), (30, 134), (-30, 134),
      (-70, 122), (-98, 102), (-114, 62), (-124, 10), (-118, -42), (-112, -88), (-94, -118),
      (-56, -136), (0, -144), (56, -136), (94, -118), (132, -4), (132, 52), (132, -56),
      (-132, -4), (-132, 52), (-132, -56)]"

definition intersects :: "LabelLayoutOutput \<Rightarrow> LabelLayoutOutput \<Rightarrow> bool" where
  "intersects a b =
     (x' a < x' b + LabelLayoutInput.width b
      \<and> x' a + LabelLayoutInput.width a > x' b
      \<and> y' a < y' b + LabelLayoutInput.height b
      \<and> y' a + LabelLayoutInput.height a > y' b)"

definition intersectsWithGap :: "LabelLayoutOutput \<Rightarrow> LabelLayoutOutput \<Rightarrow> real \<Rightarrow> bool" where
  "intersectsWithGap a b gap =
     (x' a - gap < x' b + LabelLayoutInput.width b + gap
      \<and> x' a + LabelLayoutInput.width a + gap > x' b - gap
      \<and> y' a - gap < y' b + LabelLayoutInput.height b + gap
      \<and> y' a + LabelLayoutInput.height a + gap > y' b - gap)"

definition keepInBounds :: "LabelLayoutOutput \<Rightarrow> Bounds \<Rightarrow> LabelLayoutOutput" where
  "keepInBounds layout bounds =
     (let pad = (case padding bounds of Some p \<Rightarrow> p | None \<Rightarrow> 8)
      in layout\<lparr> x' := clamp (x' layout) pad (Bounds.width bounds - LabelLayoutInput.width layout - pad),
                 y' := clamp (y' layout) pad (Bounds.height bounds - LabelLayoutInput.height layout - pad) \<rparr>)"

text \<open>\<open>Math.hypot\<close> of two numbers.\<close>

definition hypot :: "real \<Rightarrow> real \<Rightarrow> real" where
  "hypot a b = sqrt (a * a + b * b)"

definition getOutwardDirection :: "real \<Rightarrow> real \<Rightarrow> Bounds \<Rightarrow> (real \<times> real) option" where
  "getOutwardDirection ax ay bounds =
     (case (faceCenterX bounds, faceCenterY bounds) of
        (Some cx, Some cy) \<Rightarrow>
          (let outwardX = ax - cx;
               outwardY = ay - cy;
               len = hypot outwardX outwardY
           in if len < 1/1000 then None else Some (outwardX / len, outwardY / len))
      | _ \<Rightarrow> None)"

definition isPlacementOutward :: "real \<Rightarrow> real \<Rightarrow> LabelLayoutOutput \<Rightarrow> real \<times> real \<Rightarrow> bool" where
  "isPlacementOutward ax ay layout outwardDirection =
     (let centerX = x' layout + LabelLayoutInput.width layout / 2;
          centerY = y' layout + LabelLayoutInput.height layout / 2;
          vectorX = centerX - ax;
          vectorY = centerY - ay
      in vectorX * fst outwardDirection + vectorY * snd outwardDirection > 0)"

text \<open>
  \<open>hashText\<close>: \<open>hash * 31 + code\<close> stays below \<open>2^53\<close> and \<open>>>> 0\<close> reduces it modulo
  \<open>2^32\<close>, which is the arithmetic of a 32-bit word.
\<close>

definition hashText :: "string \<Rightarrow> 32 word" where
  "hashText v = foldl (\<lambda>hash c. hash * 31 + of_nat (of_char c)) 0 v"

definition rotateOffsets :: "(real \<times> real) list \<Rightarrow> nat \<Rightarrow> (real \<times> real) list" where
  "rotateOffsets offsets start =
     (if offsets = [] then offsets
      else (let normalized = start mod length offsets
            in drop normalized offsets @ take normalized offsets))"

definition outwardOrder :: "real \<times> real \<Rightarrow> (real \<times> real) \<Rightarrow> (real \<times> real) \<Rightarrow> real" where
  "outwardOrder outward a b =
     (let aLen = (if hypot (fst a) (snd a) = 0 then 1 else hypot (fst a) (snd a));
          bLen = (if hypot (fst b) (snd b) = 0 then 1 else hypot (fst b) (snd b));
          aScore = (fst a / aLen) * fst outward + (snd a / aLen) * snd outward;
          bScore = (fst b / bLen) * fst outward + (snd b / bLen) * snd outward
      in if \<bar>bScore - aScore\<bar> > 1/10000 then bScore - aScore else bLen - aLen)"

text \<open>
  \<open>Array.prototype.sort\<close> is not part of this program, and both comparators that the
  layout passes to it decide below a threshold by a second key, so neither is a
  transitive order: what the sort returns for them is left to the engine. The two uses
  of the sort are therefore parameters: \<open>sortInputs\<close> is the sort of \<open>layoutLabels\<close> on
  the inputs, \<open>sortOffsets\<close> the sort of \<open>prioritizeOutwardOffsets\<close> on the offsets.
  Nothing is assumed of either.
\<close>

record ArraySort =
  sortInputs :: "(LabelLayoutInput \<Rightarrow> LabelLayoutInput \<Rightarrow> real) \<Rightarrow> LabelLayoutInput list
                 \<Rightarrow> LabelLayoutInput list"
  sortOffsets :: "((real \<times> real) \<Rightarrow> (real \<times> real) \<Rightarrow> real) \<Rightarrow> (real \<times> real) list
                  \<Rightarrow> (real \<times> real) list"

definition prioritizeOutwardOffsets ::
  "ArraySort \<Rightarrow> (real \<times> real) list \<Rightarrow> real \<Rightarrow> real \<Rightarrow> Bounds \<Rightarrow> (real \<times> real) list" where
  "prioritizeOutwardOffsets srt offsets ax ay bounds =
     (case getOutwardDirection ax ay bounds of
        None \<Rightarrow> offsets
      | Some outward \<Rightarrow> sortOffsets srt (outwardOrder outward) offsets)"

text \<open>The candidate box of one offset: \<open>keepInBounds({...input, x, y}, bounds)\<close>.\<close>

definition attemptAt :: "LabelLayoutInput \<Rightarrow> Bounds \<Rightarrow> real \<times> real \<Rightarrow> LabelLayoutOutput" where
  "attemptAt input bounds off =
     keepInBounds
       (LabelLayoutInput.extend input
          (LabelLayoutOutput.fields (anchorX input + fst off) (anchorY input + snd off)))
       bounds"

definition prefers :: "LabelLayoutInput \<Rightarrow> bool" where
  "prefers input = (preferDistance input = Some True)"

text \<open>
  The first \<open>for\<close> loop over the offsets: an offset is passed over when the placement
  is not outward or collides with a placed box.
\<close>

fun firstPass ::
  "LabelLayoutOutput list \<Rightarrow> LabelLayoutInput \<Rightarrow> Bounds \<Rightarrow> (real \<times> real) option
   \<Rightarrow> (real \<times> real) list \<Rightarrow> LabelLayoutOutput option" where
  "firstPass placed input bounds outwardDirection [] = None"
| "firstPass placed input bounds outwardDirection (off # offs) =
     (let attempt = attemptAt input bounds off in
      if (case outwardDirection of
            Some d \<Rightarrow> \<not> isPlacementOutward (anchorX input) (anchorY input) attempt d
          | None \<Rightarrow> False)
      then firstPass placed input bounds outwardDirection offs
      else (let collisionGap = (if prefers input then 10 else 0 :: real);
                hasCollision = list_ex (\<lambda>existing. if collisionGap > 0
                                                     then intersectsWithGap existing attempt collisionGap
                                                     else intersects existing attempt) placed
            in if \<not> hasCollision then Some attempt
               else firstPass placed input bounds outwardDirection offs))"

text \<open>The second loop, entered when the first found nothing under an outward constraint.\<close>

fun secondPass ::
  "LabelLayoutOutput list \<Rightarrow> LabelLayoutInput \<Rightarrow> Bounds \<Rightarrow> (real \<times> real) list
   \<Rightarrow> LabelLayoutOutput option" where
  "secondPass placed input bounds [] = None"
| "secondPass placed input bounds (off # offs) =
     (let attempt = attemptAt input bounds off;
          hasCollision = list_ex (\<lambda>existing. intersectsWithGap existing attempt 6) placed
      in if \<not> hasCollision then Some attempt else secondPass placed input bounds offs)"

definition offsetsFor :: "ArraySort \<Rightarrow> LabelLayoutInput \<Rightarrow> Bounds \<Rightarrow> (real \<times> real) list" where
  "offsetsFor srt input bounds =
     (if prefers input
      then prioritizeOutwardOffsets srt (rotateOffsets EMOTION_OFFSETS (unat (hashText (id' input))))
             (anchorX input) (anchorY input) bounds
      else OFFSETS)"

definition outwardFor :: "LabelLayoutInput \<Rightarrow> Bounds \<Rightarrow> (real \<times> real) option" where
  "outwardFor input bounds =
     (if prefers input then getOutwardDirection (anchorX input) (anchorY input) bounds else None)"

text \<open>
  \<open>candidate\<close> after the two loops: the box of an offset that passed its collision
  check, or \<open>null\<close>.
\<close>

definition offsetPlacement ::
  "ArraySort \<Rightarrow> LabelLayoutOutput list \<Rightarrow> LabelLayoutInput \<Rightarrow> Bounds \<Rightarrow> LabelLayoutOutput option" where
  "offsetPlacement srt placed input bounds =
     (case firstPass placed input bounds (outwardFor input bounds) (offsetsFor srt input bounds) of
        Some candidate \<Rightarrow> Some candidate
      | None \<Rightarrow>
          if outwardFor input bounds \<noteq> None
          then secondPass placed input bounds (offsetsFor srt input bounds)
          else None)"

text \<open>The placement of the last \<open>if (!candidate)\<close>, which looks at no placed box.\<close>

definition fallbackPlacement :: "LabelLayoutInput \<Rightarrow> Bounds \<Rightarrow> LabelLayoutOutput" where
  "fallbackPlacement input bounds =
     (case (if prefers input then outwardFor input bounds else None) of
        Some outwardDirection \<Rightarrow>
          (let radialDistance = 118 in
           keepInBounds
             (LabelLayoutInput.extend input
                (LabelLayoutOutput.fields
                   (anchorX input + fst outwardDirection * radialDistance - LabelLayoutInput.width input / 2)
                   (anchorY input + snd outwardDirection * radialDistance - LabelLayoutInput.height input / 2)))
             bounds)
      | None \<Rightarrow>
          (let fallback = (if prefers input then (52, 0) else (14, 14)) in
           keepInBounds
             (LabelLayoutInput.extend input
                (LabelLayoutOutput.fields (anchorX input + fst fallback) (anchorY input + snd fallback)))
             bounds))"

definition placeLabel ::
  "ArraySort \<Rightarrow> LabelLayoutOutput list \<Rightarrow> LabelLayoutInput \<Rightarrow> Bounds \<Rightarrow> LabelLayoutOutput" where
  "placeLabel srt placed input bounds =
     (case offsetPlacement srt placed input bounds of
        Some candidate \<Rightarrow> candidate
      | None \<Rightarrow> fallbackPlacement input bounds)"

fun layoutLoop ::
  "ArraySort \<Rightarrow> LabelLayoutOutput list \<Rightarrow> LabelLayoutInput list \<Rightarrow> Bounds \<Rightarrow> LabelLayoutOutput list" where
  "layoutLoop srt placed [] bounds = placed"
| "layoutLoop srt placed (input # rest) bounds =
     layoutLoop srt (placed @ [placeLabel srt placed input bounds]) rest bounds"

definition priorityOrder :: "LabelLayoutInput \<Rightarrow> LabelLayoutInput \<Rightarrow> real" where
  "priorityOrder a b =
     (let diff = priority b - priority a
      in if \<bar>diff\<bar> > 3/100 then diff
         else real (unat (hashText (id' a))) - real (unat (hashText (id' b))))"

text \<open>\<open>sorted\<close>: the engine's sort of a copy of the inputs, cut to \<open>maxLabels\<close>.\<close>

definition sortedInputs :: "ArraySort \<Rightarrow> LabelLayoutInput list \<Rightarrow> nat \<Rightarrow> LabelLayoutInput list" where
  "sortedInputs srt inputs maxLabels = take maxLabels (sortInputs srt priorityOrder inputs)"

definition layoutLabels ::
  "ArraySort \<Rightarrow> LabelLayoutInput list \<Rightarrow> Bounds \<Rightarrow> nat \<Rightarrow> LabelLayoutOutput list" where
  "layoutLabels srt inputs bounds maxLabels =
     layoutLoop srt [] (sortedInputs srt inputs maxLabels) bounds"

text \<open>
  The sort of the examples is the stable sort. Their priorities lie more than 0.03
  apart, so on them \<open>priorityOrder\<close> is the descending order of the priorities, a
  consistent comparator, for which every engine returns the stable sort.
\<close>

definition stableSort :: ArraySort where
  "stableSort = \<lparr> sortInputs = sortBy, sortOffsets = sortBy \<rparr>"

text \<open>
  Three labels of 100 by 22 on one anchor, in a viewport of 1000 by 800 with the default
  padding and no face centre: each fits the viewport with room to spare.
\<close>

definition crowdedLabel :: "string \<Rightarrow> real \<Rightarrow> LabelLayoutInput" where
  "crowdedLabel nm pr =
     \<lparr> id' = nm, text' = nm, anchorX = 500, anchorY = 400,
       LabelLayoutInput.width = 100, LabelLayoutInput.height = 22,
       priority = pr, preferDistance = None \<rparr>"

definition wideBounds :: Bounds where
  "wideBounds = \<lparr> Bounds.width = 1000, Bounds.height = 800, padding = None,
                  faceCenterX = None, faceCenterY = None \<rparr>"

definition boxAt :: "LabelLayoutInput \<Rightarrow> real \<Rightarrow> real \<Rightarrow> LabelLayoutOutput" where
  "boxAt input px py = LabelLayoutInput.extend input (LabelLayoutOutput.fields px py)"

text \<open>A box lies inside the viewport when it is given enough room.\<close>

definition fitsViewport :: "LabelLayoutInput \<Rightarrow> Bounds \<Rightarrow> bool" where
  "fitsViewport input bounds =
     (let pad = (case padding bounds of Some p \<Rightarrow> p | None \<Rightarrow> 8)
      in 0 \<le> pad \<and> 0 < LabelLayoutInput.width input \<and> 0 < LabelLayoutInput.height input
         \<and> LabelLayoutInput.width input + 2 * pad \<le> Bounds.width bounds
         \<and> LabelLayoutInput.height input + 2 * pad \<le> Bounds.height bounds)"

definition crowdedInputs :: "LabelLayoutInput list" where
  "crowdedInputs = [crowdedLabel ''happy'' (9/10), crowdedLabel ''calm'' (7/10), crowdedLabel ''tired'' (1/2)]"

text \<open>Two labels on one anchor that prefer distance.\<close>

definition distantLabel :: "string \<Rightarrow> real \<Rightarrow> LabelLayoutInput" where
  "distantLabel nm pr = (crowdedLabel nm pr)\<lparr> preferDistance := Some True \<rparr>"

definition distantInputs :: "LabelLayoutInput list" where
  "distantInputs = [distantLabel ''a'' (9/10), distantLabel ''b'' (1/2)]"

section \<open>Properties of the anchor fusion engine\<close>

lemma set_insertBy: "set (insertBy cmp x ys) = insert x (set ys)"
  by (induction ys) auto

lemma set_sortBy: "set (sortBy cmp xs) = set xs"
  by (induction xs) (simp_all add: sortBy_def set_insertBy)

lemma length_insertBy: "length (insertBy cmp x ys) = Suc (length ys)"
  by (induction ys) auto

lemma length_sortBy: "length (sortBy cmp xs) = length xs"
  by (induction xs) (simp_all add: sortBy_def length_insertBy)

lemma projectLoop_mem:
  "projectLoop frame nowMs maxAge ms bs = (Inr out, bs') \<Longrightarrow> fa \<in> set out \<Longrightarrow>
   \<exists>i b p. (i, b) \<in> set bs \<and> projectPoint frame b = Inr p \<and> fa = fuse ms nowMs b p"
proof (induction bs arbitrary: out bs')
  case Nil
  then show ?case by simp
next
  case (Cons x bs)
  obtain i b where x: "x = (i, b)" by (cases x)
  show ?case
  proof (cases "nowMs - lastSeenAt b > maxAge")
    case True
    with Cons x show ?thesis by fastforce
  next
    case False
    with Cons.prems x obtain p out0 bs0 where
      p: "projectPoint frame b = Inr p" and
      r: "projectLoop frame nowMs maxAge ms bs = (Inr out0, bs0)" and
      o: "out = fuse ms nowMs b p # out0"
      by (auto split: sum.splits prod.splits)
    show ?thesis
    proof (cases "fa = fuse ms nowMs b p")
      case True
      with p x show ?thesis by (intro exI[of _ i] exI[of _ b] exI[of _ p]) simp
    next
      case False
      with o Cons.prems have "fa \<in> set out0" by simp
      from Cons.IH[OF r this] obtain j c q where
        "(j, c) \<in> set bs" "projectPoint frame c = Inr q" "fa = fuse ms nowMs c q" by blast
      then show ?thesis by (intro exI[of _ j] exI[of _ c] exI[of _ q]) simp
    qed
  qed
qed

lemma projectLoop_has:
  "projectLoop frame nowMs maxAge ms bs = (Inr out, bs') \<Longrightarrow> (i, b) \<in> set bs \<Longrightarrow>
   \<not> nowMs - lastSeenAt b > maxAge \<Longrightarrow> projectPoint frame b = Inr p \<Longrightarrow>
   fuse ms nowMs b p \<in> set out"
proof (induction bs arbitrary: out bs')
  case Nil
  then show ?case by simp
next
  case (Cons x bs)
  obtain j c where x: "x = (j, c)" by (cases x)
  show ?case
  proof (cases "nowMs - lastSeenAt c > maxAge")
    case True
    with Cons x show ?thesis by fastforce
  next
    case False
    with Cons.prems x obtain q out0 bs0 where
      q: "projectPoint frame c = Inr q" and
      r: "projectLoop frame nowMs maxAge ms bs = (Inr out0, bs0)" and
      o: "out = fuse ms nowMs c q # out0"
      by (auto split: sum.splits prod.splits)
    show ?thesis
    proof (cases "(i, b) = (j, c)")
      case True
      with q o Cons.prems show ?thesis by simp
    next
      case False
      with Cons.prems(2) x have "(i, b) \<in> set bs" by auto
      from Cons.IH[OF r this Cons.prems(3,4)] o show ?thesis by simp
    qed
  qed
qed

lemma nearestLoop_mem:
  "nearestLoop target ps best nearest = Some k \<Longrightarrow>
   nearest = Some k \<or> k \<in> index ` set ps"
  by (induction ps arbitrary: best nearest) (auto simp: Let_def split: if_splits)

lemma nearestLandmarkIndex_mem:
  "nearestLandmarkIndex f target = Some k \<Longrightarrow> k \<in> index ` set (points f)"
  by (auto simp: nearestLandmarkIndex_def split: if_splits dest: nearestLoop_mem)

lemma projectPoint_returns:
  assumes "\<forall>tl\<in>set (points f). index tl < length (points f)"
  shows "\<exists>p. projectPoint (Some f) b = Inr p"
proof (cases "nearestLandmarkIndex f (SemanticAnchor.point (anchor b))")
  case None
  then show ?thesis by (simp add: projectPoint_def)
next
  case (Some k)
  with assms have "k < length (points f)" by (auto dest: nearestLandmarkIndex_mem)
  with Some show ?thesis by (simp add: projectPoint_def elemAt_def)
qed

lemma projectLoop_returns:
  assumes "\<forall>x\<in>set bs. \<exists>p. projectPoint frame (snd x) = Inr p"
  shows "\<exists>out bs'. projectLoop frame nowMs maxAge ms bs = (Inr out, bs')"
  using assms
proof (induction bs)
  case Nil
  then show ?case by simp
next
  case (Cons x bs)
  obtain i b where x: "x = (i, b)" by (cases x)
  from Cons.prems x obtain p where p: "projectPoint frame b = Inr p" by auto
  from Cons obtain out bs' where "projectLoop frame nowMs maxAge ms bs = (Inr out, bs')" by auto
  with x p show ?case by simp
qed

lemma project_Inr:
  "project frame nowMs options eng = (Inr out, eng') \<Longrightarrow>
   \<exists>out0 bs. projectLoop frame nowMs (maxAgeFor options eng) (maxStaleMs eng) (bindings eng) = (Inr out0, bs)
       \<and> set out = set out0"
  by (auto simp: project_def set_sortBy split: sum.splits prod.splits)

lemma projectPoint_named:
  "SemanticAnchor.facialPart (anchor b) \<noteq> unknown \<Longrightarrow> parts f (SemanticAnchor.facialPart (anchor b)) = Some p \<Longrightarrow>
   projectPoint (Some f) b = Inr p"
  by (simp add: projectPoint_def)

lemma fuse_sel:
  "projectedPoint (fuse ms nowMs b p) = p"
  "SemanticAnchor.facialPart (fuse ms nowMs b p) = SemanticAnchor.facialPart (anchor b)"
  "SemanticAnchor.truncate (fuse ms nowMs b p) = anchor b"
  "stale (fuse ms nowMs b p) = (nowMs - lastSeenAt b > ms * (1/2))"
  by (simp_all add: fuse_def SemanticAnchor.extend_def FusedAnchor.fields_def SemanticAnchor.truncate_def)

text \<open>
  Claim C5 (named-part priority). Take a binding that \<open>project\<close> does not prune and whose
  anchor names a facial part that the frame passed to \<open>project\<close> tracks at \<open>p\<close>. Its
  projected point resolves to \<open>p\<close>, whatever \<open>landmarkIndex\<close> and \<open>offset\<close> the
  binding stores. Whenever \<open>project\<close> returns a list, the list holds the binding's anchor
  with projected point \<open>p\<close>, and every returned anchor whose named part is tracked has
  that part's point as its projected point. \<open>project\<close> does return a list whenever the
  \<open>index\<close> of every landmark of the frame is a position of the \<open>points\<close> array, which
  is how the tracker builds a frame.
\<close>

theorem project_named_part_priority:
  assumes "(i, b) \<in> set (bindings eng)"
      and "\<not> nowMs - lastSeenAt b > maxAgeFor options eng"
      and "SemanticAnchor.facialPart (anchor b) \<noteq> unknown"
      and "parts f (SemanticAnchor.facialPart (anchor b)) = Some p"
  shows "projectPoint (Some f) b = Inr p
       \<and> (\<forall>out eng'. project (Some f) nowMs options eng = (Inr out, eng') \<longrightarrow>
            (\<exists>fa\<in>set out. SemanticAnchor.truncate fa = anchor b \<and> projectedPoint fa = p)
          \<and> (\<forall>fa\<in>set out. \<forall>q. SemanticAnchor.facialPart fa \<noteq> unknown \<and> parts f (SemanticAnchor.facialPart fa) = Some q
                 \<longrightarrow> projectedPoint fa = q))
       \<and> ((\<forall>tl\<in>set (points f). index tl < length (points f)) \<longrightarrow>
            (\<exists>out eng'. project (Some f) nowMs options eng = (Inr out, eng')))"
proof (intro conjI allI impI)
  show pp: "projectPoint (Some f) b = Inr p"
    using assms(3,4) by (rule projectPoint_named)
  {
    fix out eng'
    assume pr: "project (Some f) nowMs options eng = (Inr out, eng')"
    then obtain out0 bs where
      l: "projectLoop (Some f) nowMs (maxAgeFor options eng) (maxStaleMs eng) (bindings eng) = (Inr out0, bs)"
      and s: "set out = set out0"
      by (blast dest: project_Inr)
    have "fuse (maxStaleMs eng) nowMs b p \<in> set out"
      using projectLoop_has[OF l assms(1,2) pp] s by simp
    then show "\<exists>fa\<in>set out. SemanticAnchor.truncate fa = anchor b \<and> projectedPoint fa = p"
      by (auto simp: fuse_sel intro!: bexI[where x = "fuse (maxStaleMs eng) nowMs b p"])
    show "\<forall>fa\<in>set out. \<forall>q. SemanticAnchor.facialPart fa \<noteq> unknown \<and> parts f (SemanticAnchor.facialPart fa) = Some q
                 \<longrightarrow> projectedPoint fa = q"
    proof (intro ballI allI impI)
      fix fa q
      assume fa: "fa \<in> set out" and q: "SemanticAnchor.facialPart fa \<noteq> unknown \<and> parts f (SemanticAnchor.facialPart fa) = Some q"
      from fa s projectLoop_mem[OF l, of fa] obtain j c r where
        c: "fa = fuse (maxStaleMs eng) nowMs c r" "projectPoint (Some f) c = Inr r"
        by blast
      with q have "projectPoint (Some f) c = Inr q"
        by (simp add: fuse_sel projectPoint_named)
      with c show "projectedPoint fa = q" by (simp add: fuse_sel)
    qed
  }
  {
    assume wf: "\<forall>tl\<in>set (points f). index tl < length (points f)"
    have "\<exists>out bs'. projectLoop (Some f) nowMs (maxAgeFor options eng) (maxStaleMs eng) (bindings eng)
            = (Inr out, bs')"
      by (rule projectLoop_returns) (blast intro: projectPoint_returns[OF wf])
    then show "\<exists>out eng'. project (Some f) nowMs options eng = (Inr out, eng')"
      by (auto simp: project_def)
  }
qed

theorem project_named_part_priority_witness:
  "\<exists>out eng'. project (Some mouthFrame) 1033 \<lparr> preserveStale = None \<rparr> namedEngine = (Inr out, eng')
      \<and> (\<exists>fa\<in>set out. SemanticAnchor.truncate fa = exampleAnchor \<and> projectedPoint fa = (640, 470))"
proof -
  let ?b = "\<lparr> anchor = exampleAnchor, landmarkIndex = Some 13, offset = Some (-5, 2), lastSeenAt = 1000 \<rparr>"
  have h1: "(''emo-happy-mouth-1'', ?b) \<in> set (bindings namedEngine)"
    by (simp add: namedEngine_def)
  have h2: "\<not> 1033 - lastSeenAt ?b > maxAgeFor \<lparr> preserveStale = None \<rparr> namedEngine"
    by (simp add: maxAgeFor_def namedEngine_def)
  have h3: "SemanticAnchor.facialPart (anchor ?b) \<noteq> unknown"
    by (simp add: exampleAnchor_def)
  have h4: "parts mouthFrame (SemanticAnchor.facialPart (anchor ?b)) = Some (640, 470)"
    by (simp add: exampleAnchor_def mouthFrame_def)
  have wf: "\<forall>tl\<in>set (points mouthFrame). index tl < length (points mouthFrame)"
    by (simp add: mouthFrame_def indexed_def)
  note t = project_named_part_priority[OF h1 h2 h3 h4]
  from t wf obtain out eng' where
    r: "project (Some mouthFrame) 1033 \<lparr> preserveStale = None \<rparr> namedEngine = (Inr out, eng')"
    by blast
  with t have "\<exists>fa\<in>set out. SemanticAnchor.truncate fa = anchor ?b \<and> projectedPoint fa = (640, 470)"
    by blast
  with r show ?thesis by simp
qed

lemma elemAt_simps:
  "elemAt [] i = None"
  "elemAt (x # xs) 0 = Some x"
  "elemAt (x # xs) (Suc n) = elemAt xs n"
  by (simp_all add: elemAt_def)

text \<open>
  Claim C6 (example scenario). \<open>updateAnchors\<close> on an engine without bindings receives one
  anchor reported at \<open>[700,500]\<close> whose facial part the frame does not track; the nearest
  landmark of the frame is landmark 13, tracked at \<open>[705,498]\<close>. The binding stored is
  landmark 13 with offset \<open>[-5,2]\<close>. When the next frame (which does not track the part
  either) reports landmark 13 at \<open>[650,480]\<close> and the binding has not expired,
  \<open>project\<close> returns the anchor with projected point \<open>[645,482]\<close>.
\<close>

theorem landmark_offset_scenario:
  assumes "bindings eng = []"
      and "SemanticAnchor.point a = (700, 500)"
      and "SemanticAnchor.facialPart a = unknown \<or> parts f1 (SemanticAnchor.facialPart a) = None"
      and "nearestLandmarkIndex f1 (700, 500) = Some 13"
      and "elemAt (points f1) 13 = Some tp1" and "lmPoint tp1 = (705, 498)"
      and "SemanticAnchor.facialPart a = unknown \<or> parts f2 (SemanticAnchor.facialPart a) = None"
      and "elemAt (points f2) 13 = Some tp2" and "lmPoint tp2 = (650, 480)"
      and "\<not> t2 - t1 > maxAgeFor options eng"
  shows "bindings (updateAnchors [a] (Some f1) t1 eng)
           = [(SemanticAnchor.id' a, \<lparr> anchor = a, landmarkIndex = Some 13, offset = Some (-5, 2), lastSeenAt = t1 \<rparr>)]
       \<and> (\<exists>fa. fst (project (Some f2) t2 options (updateAnchors [a] (Some f1) t1 eng)) = Inr [fa]
              \<and> SemanticAnchor.truncate fa = a \<and> projectedPoint fa = (645, 482))"
proof -
  let ?b = "\<lparr> anchor = a, landmarkIndex = Some 13, offset = Some (-5, 2), lastSeenAt = t1 \<rparr>"
  let ?eng = "updateAnchors [a] (Some f1) t1 eng"
  have bs: "bindings ?eng = [(SemanticAnchor.id' a, ?b)]"
  proof (cases "SemanticAnchor.facialPart a = unknown")
    case True
    with assms(1,2,4,5,6) show ?thesis
      by (simp add: updateAnchors_def bindAnchor_def mapGet_def resolveTargetPoint_def
                    subtractPoint_def Let_def)
  next
    case False
    with assms(3) have "parts f1 (SemanticAnchor.facialPart a) = None" by simp
    with assms(1,2,4,5,6) show ?thesis
      by (simp add: updateAnchors_def bindAnchor_def mapGet_def resolveTargetPoint_def
                    subtractPoint_def Let_def)
  qed
  have pp: "projectPoint (Some f2) ?b = Inr (645, 482)"
  proof (cases "SemanticAnchor.facialPart a = unknown")
    case True
    with assms(8,9) show ?thesis by (simp add: projectPoint_def addOffset_def clamp_def)
  next
    case False
    with assms(7) have "parts f2 (SemanticAnchor.facialPart a) = None" by simp
    with assms(8,9) show ?thesis by (simp add: projectPoint_def addOffset_def clamp_def)
  qed
  have ma: "maxAgeFor options ?eng = maxAgeFor options eng" "maxStaleMs ?eng = maxStaleMs eng"
    by (simp_all add: maxAgeFor_def updateAnchors_def Let_def)
  have "fst (project (Some f2) t2 options ?eng) = Inr [fuse (maxStaleMs eng) t2 ?b (645, 482)]"
    using assms(10) by (simp add: project_def bs pp ma sortBy_def)
  then show ?thesis using bs by (simp add: fuse_sel)
qed

lemma nearest_example: "nearestLandmarkIndex (exampleFrame (705, 498) 1000) (700, 500) = Some 13"
  by (simp add: nearestLandmarkIndex_def exampleFrame_def indexed_def enumerate_eq_zip
         squaredDistance_def Let_def eval_nat_numeral upt_rec)


theorem landmark_offset_scenario_witness:
  "projectedPoint (hd (projr (fst (project (Some (exampleFrame (650, 480) 1033)) 1033 \<lparr> preserveStale = None \<rparr>
       (updateAnchors [exampleAnchor] (Some (exampleFrame (705, 498) 1000)) 1000
          (newEngine \<lparr> optMaxStaleMs = None, optHardMaxStaleMs = None, optReacquireDistance = None \<rparr>))))))
   = (645, 482)"
proof -
  let ?eng = "newEngine \<lparr> optMaxStaleMs = None, optHardMaxStaleMs = None, optReacquireDistance = None \<rparr>"
  let ?f1 = "exampleFrame (705, 498) 1000"
  let ?f2 = "exampleFrame (650, 480) 1033"
  have e1: "elemAt (points ?f1) 13 = Some \<lparr> index = 13, lmPoint = (705, 498) \<rparr>"
    by (simp add: exampleFrame_def indexed_def enumerate_eq_zip elemAt_def eval_nat_numeral upt_rec)
  have e2: "elemAt (points ?f2) 13 = Some \<lparr> index = 13, lmPoint = (650, 480) \<rparr>"
    by (simp add: exampleFrame_def indexed_def enumerate_eq_zip elemAt_def eval_nat_numeral upt_rec)
  have "\<exists>fa. fst (project (Some ?f2) 1033 \<lparr> preserveStale = None \<rparr>
                  (updateAnchors [exampleAnchor] (Some ?f1) 1000 ?eng)) = Inr [fa]
              \<and> SemanticAnchor.truncate fa = exampleAnchor \<and> projectedPoint fa = (645, 482)"
    using landmark_offset_scenario[where eng = ?eng and a = exampleAnchor and ?f1.0 = ?f1
        and ?tp1.0 = "\<lparr> index = 13, lmPoint = (705, 498) \<rparr>" and ?f2.0 = ?f2
        and ?tp2.0 = "\<lparr> index = 13, lmPoint = (650, 480) \<rparr>" and ?t2.0 = 1033 and ?t1.0 = 1000
        and options = "\<lparr> preserveStale = None \<rparr>"]
      nearest_example e1 e2
    by (simp add: newEngine_def exampleAnchor_def maxAgeFor_def exampleFrame_def)
  then show ?thesis by auto
qed

lemma projectLoop_again:
  "projectLoop frame nowMs maxAge ms (snd (projectLoop frame nowMs maxAge ms bs))
   = projectLoop frame nowMs maxAge ms bs"
  by (induction bs) (auto split: sum.splits prod.splits)

lemma project_bindings:
  "bindings (snd (project frame nowMs options eng))
   = snd (projectLoop frame nowMs (maxAgeFor options eng) (maxStaleMs eng) (bindings eng))"
  by (simp add: project_def split: sum.splits prod.splits)

lemma project_params:
  "maxStaleMs (snd (project frame nowMs options eng)) = maxStaleMs eng"
  "hardMaxStaleMs (snd (project frame nowMs options eng)) = hardMaxStaleMs eng"
  by (simp_all add: project_def split: sum.splits prod.splits)

lemma project_fst:
  "fst (project frame nowMs options eng)
   = map_sum (\<lambda>e. e) (sortBy (\<lambda>a b. SemanticAnchor.confidence b - SemanticAnchor.confidence a))
       (fst (projectLoop frame nowMs (maxAgeFor options eng) (maxStaleMs eng) (bindings eng)))"
  by (simp add: project_def split: sum.splits prod.splits)

text \<open>
  Claim C7 (fusion idempotence). For every engine state, frame, timestamp and options,
  a second \<open>project\<close> on the state the first one left returns what the first returned:
  the same list in the same order, or the same error.
\<close>

theorem project_idempotent:
  "fst (project frame nowMs options (snd (project frame nowMs options eng)))
   = fst (project frame nowMs options eng)"
proof -
  have "maxAgeFor options (snd (project frame nowMs options eng)) = maxAgeFor options eng"
    by (simp add: maxAgeFor_def project_params)
  then show ?thesis
    by (simp add: project_fst project_bindings project_params projectLoop_again)
qed


theorem project_idempotent_witness:
  "fst (project (Some mouthFrame) 1033 \<lparr> preserveStale = None \<rparr>
          (snd (project (Some mouthFrame) 1033 \<lparr> preserveStale = None \<rparr> agedEngine)))
     = Inr [fuse 4500 1033 (snd (hd (bindings namedEngine))) (640, 470)]
   \<and> map fst (bindings agedEngine) = [''depth-0-pallor'', ''emo-happy-mouth-1'']
   \<and> map fst (bindings (snd (project (Some mouthFrame) 1033 \<lparr> preserveStale = None \<rparr> agedEngine)))
       = [''emo-happy-mouth-1'']"
proof -
  have "project (Some mouthFrame) 1033 \<lparr> preserveStale = None \<rparr> agedEngine
        = (Inr [fuse 4500 1033 (snd (hd (bindings namedEngine))) (640, 470)],
           agedEngine\<lparr>bindings := bindings namedEngine\<rparr>)"
    by (simp add: project_def maxAgeFor_def namedEngine_def agedEngine_def sortBy_def
                  projectPoint_def exampleAnchor_def mouthFrame_def)
  with project_idempotent[of "Some mouthFrame" 1033 "\<lparr> preserveStale = None \<rparr>" agedEngine]
  show ?thesis by (simp add: agedEngine_def namedEngine_def)
qed
section \<open>Properties of the sanitizers\<close>

lemma clamp_range: "lo \<le> hi \<Longrightarrow> inRange lo hi (clamp v lo hi)"
  by (simp add: clamp_def inRange_def min_def max_def)

lemma toConfidence_range: "inRange 0 1 fb \<Longrightarrow> inRange 0 1 (toConfidence N v fb)"
  by (simp add: toConfidence_def clamp_range split: jsvalue.splits jsnum.splits)

lemma toPoint_inGrid: "inGrid fb \<Longrightarrow> inGrid (toPoint v fb)"
  by (simp add: toPoint_def inGrid_def clamp_range split: jsvalue.splits)

lemma defaultPointForPart_inGrid: "inGrid (defaultPointForPart part)"
  by (cases part) (simp_all add: defaultPointForPart_def inGrid_def inRange_def)

lemma inRange_grid_consts: "inRange 0 1000 0" "inRange 0 1000 1000"
  by (simp_all add: inRange_def)

lemma toFaceBox_inGrid: "boxInGrid (toFaceBox v)"
proof (cases v)
  case (JArray xs)
  then show ?thesis
    by (simp add: toFaceBox_def boxInGrid_def Let_def clamp_range inRange_grid_consts)
qed (simp_all add: toFaceBox_def boxInGrid_def)

lemma inRange_pose_zero: "inRange (-90) 90 0"
  by (simp add: inRange_def)

lemma toHeadPose_inRange: "poseInRange (toHeadPose v)"
  by (simp add: toHeadPose_def poseInRange_def clamp_range inRange_pose_zero)

lemma toConfidence_unit: "0 \<le> fb \<Longrightarrow> fb \<le> 1 \<Longrightarrow> inRange 0 1 (toConfidence N v fb)"
  by (rule toConfidence_range) (simp add: inRange_def)

lemma find_mem: "find P xs = Some c \<Longrightarrow> c \<in> set xs"
  by (induction xs) (auto split: if_splits)

lemma inGrid_centre: "inGrid (500, 500)"
  by (simp add: inGrid_def inRange_def)

lemma emotionAnchors_bounds:
  "\<forall>e\<in>set es. inRange 0 1 (FastEmotion.confidence e) \<and> inGrid (FastEmotion.point e) \<Longrightarrow>
   \<forall>a\<in>set (emotionAnchors cnt lms es). anchorWithinBounds a"
  by (induction es arbitrary: cnt) (simp_all add: Let_def anchorWithinBounds_def)

lemma depthAnchors_bounds:
  "\<forall>i\<in>set ins. inRange 0 1 (DepthInsight.confidence i) \<and> inGrid (DepthInsight.point i) \<Longrightarrow>
   \<forall>a\<in>set (buildDepthAnchors ins). anchorWithinBounds a"
  by (auto simp: buildDepthAnchors_def anchorWithinBounds_def in_set_enumerate_eq)

lemma liteCandidates_length: "length (liteCandidates N v) \<le> 6"
  by (simp add: liteCandidates_def split: jsvalue.splits)

lemma liteCandidates_conf: "c \<in> set (liteCandidates N v) \<Longrightarrow> inRange 0 1 (EmotionCandidate.confidence c)"
  by (auto simp: liteCandidates_def toConfidence_unit split: jsvalue.splits)

lemma liteCandidates_hd:
  "inRange 0 1 d \<Longrightarrow>
   inRange 0 1 (case liteCandidates N v of c # _ \<Rightarrow> EmotionCandidate.confidence c | [] \<Rightarrow> d)"
  using liteCandidates_conf[of _ N v] by (cases "liteCandidates N v") simp_all

lemma liteCandidates_find:
  "inRange 0 1 d \<Longrightarrow>
   inRange 0 1 (case find P (liteCandidates N v) of Some c \<Rightarrow> EmotionCandidate.confidence c | None \<Rightarrow> d)"
  by (cases "find P (liteCandidates N v)") (auto dest: find_mem liteCandidates_conf)

lemma liteBounds: "liteWithinBounds (sanitizeLiteResult N now raw options m)"
proof (cases "\<not> truthy raw \<or> \<not> typeofObject raw")
  case True
  then show ?thesis
    by (simp add: sanitizeLiteResult_def toDefaultLiteResult_def liteWithinBounds_def inRange_def
                  boxInGrid_def poseInRange_def)
next
  case False
  have fc: "inRange 0 1 (toConfidence N (getProp raw ''confidence'') (if b then 7/10 else 1/10))" for b
    by (rule toConfidence_unit) simp_all
  from False show ?thesis
    unfolding sanitizeLiteResult_def liteWithinBounds_def Let_def liteCandidates_def[symmetric]
    by (simp add: liteCandidates_length liteCandidates_conf liteCandidates_hd liteCandidates_find
                  fc toConfidence_range toFaceBox_inGrid toHeadPose_inRange)
qed

lemma sanitizeFlashResult_eq:
  "truthy raw \<Longrightarrow> typeofObject raw \<Longrightarrow>
   sanitizeFlashResult N now raw options m =
     \<lparr> FastAnalysisResult.model = m,
       frameId = (case optFrameId options of Some v \<Rightarrow> v | None \<Rightarrow> 0),
       capturedAt = (case optCapturedAt options of Some v \<Rightarrow> v | None \<Rightarrow> now),
       faceDetected = (truthy (getProp raw ''faceDetected'') \<or> toFaceBox (getProp raw ''faceBox'') \<noteq> None),
       confidence = toConfidence N (getProp raw ''confidence'')
                      (if truthy (getProp raw ''faceDetected'') \<or> toFaceBox (getProp raw ''faceBox'') \<noteq> None
                       then 6/10 else 1/10),
       faceBox = toFaceBox (getProp raw ''faceBox''),
       headPose = toHeadPose (getProp raw ''headPose''),
       emotions = flashEmotions N (getProp raw ''emotions''),
       landmarks = [],
       semanticAnchors = buildFastAnchors (flashEmotions N (getProp raw ''emotions'')) [] \<rparr>"
  by (simp add: sanitizeFlashResult_def flashEmotions_def Let_def)

lemma sanitizeDepthResult_eq:
  "truthy raw \<Longrightarrow> typeofObject raw \<Longrightarrow>
   sanitizeDepthResult N now raw options m =
     \<lparr> DepthAnalysisResult.model = m,
       frameId = (case optFrameId options of Some v \<Rightarrow> v | None \<Rightarrow> 0),
       capturedAt = (case optCapturedAt options of Some v \<Rightarrow> v | None \<Rightarrow> now),
       confidence = toConfidence N (getProp raw ''confidence'')
                      (if depthInsights N (getProp raw ''insights'') \<noteq> [] then 56/100 else 1/10),
       summary = toStringOrFallback (getProp raw ''summary'') [],
       insights = depthInsights N (getProp raw ''insights''),
       semanticAnchors = buildDepthAnchors (depthInsights N (getProp raw ''insights'')) \<rparr>"
  by (simp add: sanitizeDepthResult_def depthInsights_def Let_def)

lemma flashEmotions_length: "length (flashEmotions N v) \<le> 6"
  by (simp add: flashEmotions_def split: jsvalue.splits)

lemma flashEmotions_bounds:
  "e \<in> set (flashEmotions N v) \<Longrightarrow>
   inRange 0 1 (FastEmotion.confidence e) \<and> inGrid (FastEmotion.point e) \<and> FastEmotion.facialPart e \<noteq> unknown"
  by (auto simp: flashEmotions_def Let_def toConfidence_unit toPoint_inGrid defaultPointForPart_inGrid
           split: jsvalue.splits if_splits)

lemma depthInsights_length: "length (depthInsights N v) \<le> 10"
  by (simp add: depthInsights_def split: jsvalue.splits)

lemma depthInsights_bounds:
  "i \<in> set (depthInsights N v) \<Longrightarrow>
   inRange 0 1 (DepthInsight.confidence i) \<and> inGrid (DepthInsight.point i)"
  by (auto simp: depthInsights_def toConfidence_unit toPoint_inGrid inGrid_centre
           split: jsvalue.splits)

lemma flashBounds: "flashWithinBounds (sanitizeFlashResult N now raw options m)"
proof (cases "\<not> truthy raw \<or> \<not> typeofObject raw")
  case True
  then show ?thesis
    by (simp add: sanitizeFlashResult_def toDefaultFlashResult_def flashWithinBounds_def inRange_def
                  boxInGrid_def poseInRange_def)
next
  case False
  have fc: "inRange 0 1 (toConfidence N (getProp raw ''confidence'') (if b then 6/10 else 1/10))" for b
    by (rule toConfidence_unit) simp_all
  have an: "\<forall>a\<in>set (buildFastAnchors (flashEmotions N (getProp raw ''emotions'')) []). anchorWithinBounds a"
    unfolding buildFastAnchors_def landmarkAnchors_def
    using emotionAnchors_bounds[of "flashEmotions N (getProp raw ''emotions'')" Map.empty "[]"]
    by (simp add: flashEmotions_bounds)
  from False show ?thesis
    by (simp add: sanitizeFlashResult_eq flashWithinBounds_def flashEmotions_length
                  flashEmotions_bounds fc an toFaceBox_inGrid toHeadPose_inRange)
qed

lemma depthBounds: "depthWithinBounds (sanitizeDepthResult N now raw options m)"
proof (cases "\<not> truthy raw \<or> \<not> typeofObject raw")
  case True
  then show ?thesis
    by (simp add: sanitizeDepthResult_def toDefaultDepthResult_def depthWithinBounds_def inRange_def)
next
  case False
  have fc: "inRange 0 1 (toConfidence N (getProp raw ''confidence'') (if b then 56/100 else 1/10))" for b
    by (rule toConfidence_unit) simp_all
  have an: "\<forall>a\<in>set (buildDepthAnchors (depthInsights N (getProp raw ''insights''))). anchorWithinBounds a"
    by (rule depthAnchors_bounds) (simp add: depthInsights_bounds)
  from False show ?thesis
    by (simp add: sanitizeDepthResult_eq depthWithinBounds_def depthInsights_length
                  depthInsights_bounds fc an)
qed

lemma emotionAnchors_length: "length (emotionAnchors cnt lms es) = length es"
  by (induction es arbitrary: cnt) (simp_all add: Let_def)

lemma emotionAnchors_kind: "a \<in> set (emotionAnchors cnt lms es) \<Longrightarrow> kind a = KindEmotion"
  by (induction es arbitrary: cnt) (auto simp: Let_def)

lemma emotionAnchors_parts:
  "\<forall>e\<in>set es. FastEmotion.facialPart e \<noteq> unknown \<Longrightarrow>
   map SemanticAnchor.facialPart (emotionAnchors cnt lms es) = map FastEmotion.facialPart es"
  by (induction es arbitrary: cnt) (simp_all add: Let_def)

lemma emotionAnchors_no_landmarks:
  "\<forall>e\<in>set es. FastEmotion.facialPart e \<noteq> unknown \<Longrightarrow>
   emotionAnchors cnt lms es = emotionAnchors cnt lms' es"
  by (induction es arbitrary: cnt) (simp_all add: Let_def)

lemma flash_anchors:
  "FastAnalysisResult.semanticAnchors (sanitizeFlashResult N now raw options m)
   = emotionAnchors Map.empty [] (emotions (sanitizeFlashResult N now raw options m))"
proof (cases "truthy raw \<and> typeofObject raw")
  case True
  then show ?thesis by (simp add: sanitizeFlashResult_eq buildFastAnchors_def landmarkAnchors_def)
next
  case False
  then show ?thesis by (auto simp: sanitizeFlashResult_def toDefaultFlashResult_def)
qed

lemma flash_emotions:
  "emotions (sanitizeFlashResult N now raw options m)
   = (if truthy raw \<and> typeofObject raw then flashEmotions N (getProp raw ''emotions'') else [])"
proof (cases "truthy raw \<and> typeofObject raw")
  case True
  then show ?thesis by (simp add: sanitizeFlashResult_eq)
next
  case False
  then show ?thesis by (auto simp: sanitizeFlashResult_def toDefaultFlashResult_def)
qed

lemma flash_landmarks: "landmarks (sanitizeFlashResult N now raw options m) = []"
proof (cases "truthy raw \<and> typeofObject raw")
  case True
  then show ?thesis by (simp add: sanitizeFlashResult_eq)
next
  case False
  then show ?thesis by (auto simp: sanitizeFlashResult_def toDefaultFlashResult_def)
qed

lemma flash_emotions_named:
  "e \<in> set (emotions (sanitizeFlashResult N now raw options m)) \<Longrightarrow> FastEmotion.facialPart e \<noteq> unknown"
  by (auto simp: flash_emotions dest: flashEmotions_bounds split: if_splits)

text \<open>
  Claim C10 (the mid lane has no landmarks). For every raw input the result of
  \<open>sanitizeFlashResult\<close> has an empty \<open>landmarks\<close> list. Its semantic anchors are one
  per entry of \<open>emotions\<close> (at most 6) and all of kind \<open>emotion\<close>; no landmark-kind
  anchor is emitted. No emotion has the facial part \<open>unknown\<close>, so each anchor keeps the
  facial part of its emotion and the anchors are the same for every landmark list that
  \<open>buildFastAnchors\<close> could be given: none is resolved through the landmark list.
\<close>

theorem flash_lane_never_emits_landmarks:
  assumes "r = sanitizeFlashResult N now raw options m"
  shows "landmarks r = []
       \<and> length (FastAnalysisResult.semanticAnchors r) = length (emotions r)
       \<and> length (emotions r) \<le> 6
       \<and> (\<forall>a\<in>set (FastAnalysisResult.semanticAnchors r). kind a = KindEmotion)
       \<and> (\<forall>e\<in>set (emotions r). FastEmotion.facialPart e \<noteq> unknown)
       \<and> map SemanticAnchor.facialPart (FastAnalysisResult.semanticAnchors r)
           = map FastEmotion.facialPart (emotions r)
       \<and> (\<forall>lms. FastAnalysisResult.semanticAnchors r = emotionAnchors Map.empty lms (emotions r))"
proof -
  have named: "\<forall>e\<in>set (emotions r). FastEmotion.facialPart e \<noteq> unknown"
    unfolding assms by (blast dest: flash_emotions_named)
  have an: "FastAnalysisResult.semanticAnchors r = emotionAnchors Map.empty [] (emotions r)"
    unfolding assms by (rule flash_anchors)
  have len: "length (emotions r) \<le> 6"
    unfolding assms by (simp add: flash_emotions flashEmotions_length)
  have "landmarks r = []" unfolding assms by (rule flash_landmarks)
  moreover have "length (FastAnalysisResult.semanticAnchors r) = length (emotions r)"
    by (simp add: an emotionAnchors_length)
  moreover have "\<forall>a\<in>set (FastAnalysisResult.semanticAnchors r). kind a = KindEmotion"
    by (simp add: an emotionAnchors_kind)
  moreover have "map SemanticAnchor.facialPart (FastAnalysisResult.semanticAnchors r)
           = map FastEmotion.facialPart (emotions r)"
    unfolding an by (rule emotionAnchors_parts[OF named])
  moreover have "\<forall>lms. FastAnalysisResult.semanticAnchors r = emotionAnchors Map.empty lms (emotions r)"
    unfolding an using emotionAnchors_no_landmarks[OF named] by blast
  ultimately show ?thesis using named len by blast
qed

text \<open>
  Claim C2, as amended. For every mid-lane raw response, an emotion finding (one of the
  first six) whose facial part reads as \<open>unknown\<close> is given the facial part
  \<open>faceCenter\<close>, in the emotion and in its semantic anchor; its point is the point it
  carries, or the default point \<open>[470,500]\<close> of \<open>faceCenter\<close>. The landmark list of the
  response is not read: the result's \<open>landmarks\<close> is empty.
\<close>

theorem unknown_part_becomes_faceCenter:
  assumes "truthy raw" and "typeofObject raw"
      and "getProp raw ''emotions'' = JArray items"
      and "i < length items" and "i < 6"
      and "toFacialPart (getProp (items ! i) ''facialPart'') = unknown"
      and "r = sanitizeFlashResult N now raw options m"
  shows "FastEmotion.facialPart (emotions r ! i) = faceCenter
       \<and> SemanticAnchor.facialPart (FastAnalysisResult.semanticAnchors r ! i) = faceCenter
       \<and> FastEmotion.point (emotions r ! i) = toPoint (getProp (items ! i) ''point'') (470, 500)
       \<and> landmarks r = []"
proof -
  have em: "emotions r = flashEmotions N (JArray items)"
    using assms(1,2,3,7) by (simp add: flash_emotions)
  have li: "i < length (emotions r)"
    using assms(4,5) by (simp add: em flashEmotions_def)
  have e: "FastEmotion.facialPart (emotions r ! i) = faceCenter"
          "FastEmotion.point (emotions r ! i) = toPoint (getProp (items ! i) ''point'') (470, 500)"
    using assms(4,5,6) by (simp_all add: em flashEmotions_def Let_def defaultPointForPart_def)
  have named: "\<forall>e\<in>set (emotions r). FastEmotion.facialPart e \<noteq> unknown"
    unfolding assms(7) by (blast dest: flash_emotions_named)
  have "map SemanticAnchor.facialPart (FastAnalysisResult.semanticAnchors r)
           = map FastEmotion.facialPart (emotions r)"
    unfolding assms(7) flash_anchors
    by (rule emotionAnchors_parts) (use named assms(7) in simp)
  then have "map SemanticAnchor.facialPart (FastAnalysisResult.semanticAnchors r) ! i
           = map FastEmotion.facialPart (emotions r) ! i" by simp
  moreover have "i < length (FastAnalysisResult.semanticAnchors r)"
    using li by (simp add: assms(7) flash_anchors emotionAnchors_length)
  ultimately have "SemanticAnchor.facialPart (FastAnalysisResult.semanticAnchors r ! i) = faceCenter"
    using li e by simp
  then show ?thesis using e by (simp add: assms(7) flash_landmarks)
qed


lemma unknownPartRaw_emotions:
  "emotions (sanitizeFlashResult (\<lambda>s. NaN) 0 unknownPartRaw noOptions FLASH_MODEL)
   = [\<lparr> FastEmotion.emotion = ''happy'', intensity = ''low'', confidence = 4/10, point = (700, 500),
         facialPart = faceCenter, explanation = None \<rparr>]"
  by (simp add: flash_emotions flashEmotions_def unknownPartRaw_def num_def toFacialPart_def
        partNames_def trim_def isWhiteSpace_def toStringOrFallback_def toConfidence_def toPoint_def
        isNumber_def numberOf_def clamp_def mathRound_def defaultPointForPart_def Let_def)

lemma unknownPartRaw_spec_landmarks:
  "map FastLandmark.facialPart (spec_responseLandmarks (\<lambda>s. NaN) unknownPartRaw) = [mouth, leftEye]
   \<and> map FastLandmark.point (spec_responseLandmarks (\<lambda>s. NaN) unknownPartRaw) = [(690, 505), (370, 330)]"
  by (simp add: spec_responseLandmarks_def unknownPartRaw_def num_def toFacialPart_def
        partNames_def trim_def isWhiteSpace_def toPoint_def
        isNumber_def numberOf_def clamp_def mathRound_def Let_def)

text \<open>
  Claim C2 as stated fails: a finding with facial part \<open>"unknown"\<close> and point
  \<open>[700,500]\<close>, in a response whose nearest landmark is on the mouth, is assigned
  \<open>faceCenter\<close>, not \<open>mouth\<close>.
\<close>

theorem unknown_part_nearest_landmark_counterexample:
  "map SemanticAnchor.facialPart
     (FastAnalysisResult.semanticAnchors
        (sanitizeFlashResult (\<lambda>s. NaN) 0 unknownPartRaw noOptions FLASH_MODEL)) = [faceCenter]
   \<and> map FastEmotion.facialPart
       (emotions (sanitizeFlashResult (\<lambda>s. NaN) 0 unknownPartRaw noOptions FLASH_MODEL)) = [faceCenter]
   \<and> toFacialPart (JString ''unknown'') = unknown
   \<and> nearestLandmarkPart (700, 500) (spec_responseLandmarks (\<lambda>s. NaN) unknownPartRaw) = mouth"
proof -
  have a: "map SemanticAnchor.facialPart
     (FastAnalysisResult.semanticAnchors
        (sanitizeFlashResult (\<lambda>s. NaN) 0 unknownPartRaw noOptions FLASH_MODEL)) = [faceCenter]"
    by (simp add: flash_anchors unknownPartRaw_emotions Let_def)
  have b: "toFacialPart (JString ''unknown'') = unknown"
    by (simp add: toFacialPart_def partNames_def trim_def isWhiteSpace_def)
  have c: "nearestLandmarkPart (700, 500) (spec_responseLandmarks (\<lambda>s. NaN) unknownPartRaw) = mouth"
    by (simp add: spec_responseLandmarks_def unknownPartRaw_def num_def toFacialPart_def
        partNames_def trim_def isWhiteSpace_def toPoint_def nearestLandmarkPart_def
        isNumber_def numberOf_def clamp_def mathRound_def Let_def)
  show ?thesis using a b c by (simp add: unknownPartRaw_emotions)
qed

theorem unknown_part_becomes_faceCenter_witness:
  "FastEmotion.facialPart (emotions (sanitizeFlashResult (\<lambda>s. NaN) 0 unknownPartRaw noOptions FLASH_MODEL) ! 0)
     = faceCenter
   \<and> SemanticAnchor.facialPart
       (FastAnalysisResult.semanticAnchors (sanitizeFlashResult (\<lambda>s. NaN) 0 unknownPartRaw noOptions FLASH_MODEL) ! 0)
     = faceCenter
   \<and> FastEmotion.point (emotions (sanitizeFlashResult (\<lambda>s. NaN) 0 unknownPartRaw noOptions FLASH_MODEL) ! 0)
     = (700, 500)
   \<and> landmarks (sanitizeFlashResult (\<lambda>s. NaN) 0 unknownPartRaw noOptions FLASH_MODEL) = []"
proof -
  let ?item = "JObject [(''emotion'', JString ''happy''), (''facialPart'', JString ''unknown''),
                        (''point'', JArray [num 700, num 500])]"
  have h1: "truthy unknownPartRaw" and h2: "typeofObject unknownPartRaw"
    by (simp_all add: unknownPartRaw_def)
  have h3: "getProp unknownPartRaw ''emotions'' = JArray [?item]"
    by (simp add: unknownPartRaw_def)
  have h4: "0 < length [?item]" and h5: "(0::nat) < 6" by simp_all
  have h6: "toFacialPart (getProp ([?item] ! 0) ''facialPart'') = unknown"
    by (simp add: toFacialPart_def partNames_def trim_def isWhiteSpace_def)
  have p: "toPoint (getProp ([?item] ! 0) ''point'') (470, 500) = (700, 500)"
    by (simp add: toPoint_def num_def isNumber_def numberOf_def clamp_def mathRound_def)
  from unknown_part_becomes_faceCenter[OF h1 h2 h3 h4 h5 h6 refl, of "\<lambda>s. NaN" 0 noOptions FLASH_MODEL] p
  show ?thesis by simp
qed

theorem flash_lane_never_emits_landmarks_witness:
  "landmarks (sanitizeFlashResult (\<lambda>s. NaN) 0 unknownPartRaw noOptions FLASH_MODEL) = []
   \<and> map kind (FastAnalysisResult.semanticAnchors
                  (sanitizeFlashResult (\<lambda>s. NaN) 0 unknownPartRaw noOptions FLASH_MODEL)) = [KindEmotion]
   \<and> map FastEmotion.facialPart
        (emotions (sanitizeFlashResult (\<lambda>s. NaN) 0 unknownPartRaw noOptions FLASH_MODEL)) = [faceCenter]"
proof -
  let ?r = "sanitizeFlashResult (\<lambda>s. NaN) 0 unknownPartRaw noOptions FLASH_MODEL"
  note t = flash_lane_never_emits_landmarks[OF refl, of "\<lambda>s. NaN" 0 unknownPartRaw noOptions FLASH_MODEL]
  from t have l: "landmarks ?r = []" by blast
  from t have n: "length (FastAnalysisResult.semanticAnchors ?r) = length (emotions ?r)" by blast
  from t have k: "\<forall>a\<in>set (FastAnalysisResult.semanticAnchors ?r). kind a = KindEmotion" by blast
  from n obtain a where a: "FastAnalysisResult.semanticAnchors ?r = [a]"
    by (auto simp: unknownPartRaw_emotions length_Suc_conv)
  with k have "map kind (FastAnalysisResult.semanticAnchors ?r) = [KindEmotion]" by simp
  with l show ?thesis by (simp add: unknownPartRaw_emotions)
qed

text \<open>
  Claim C4 (sanitizer totality). For every input value, every \<open>Number\<close> of strings,
  every clock reading, options and model name, each of the three sanitizers returns a
  result (the functions are total: no read of the source can throw, every property read
  goes through \<open>?.\<close> or follows the check that its object is truthy and of type
  object) with every numeric field inside its bound: confidences in \<open>[0,1]\<close>, the
  coordinates of points and face boxes in \<open>[0,1000]\<close>, head-pose angles in
  \<open>[-90,90]\<close>, at most 6 candidates and emotions and at most 10 insights.
\<close>

theorem sanitizer_totality_bounds:
  "liteWithinBounds (sanitizeLiteResult N now raw options m)
   \<and> flashWithinBounds (sanitizeFlashResult N now raw options m)
   \<and> depthWithinBounds (sanitizeDepthResult N now raw options m)"
  by (intro conjI liteBounds flashBounds depthBounds)

lemma badRaw_lite:
  "map EmotionCandidate.confidence (candidates (sanitizeLiteResult (\<lambda>s. NaN) 0 badRaw noOptions m))
     = [0, 9/20, 9/20, 9/20, 9/20, 9/20]"
  "LiteAnalysisResult.confidence (sanitizeLiteResult (\<lambda>s. NaN) 0 badRaw noOptions m) = 1"
  "LiteAnalysisResult.faceBox (sanitizeLiteResult (\<lambda>s. NaN) 0 badRaw noOptions m)
     = Some (0, 20, 1000, 1000)"
  "LiteAnalysisResult.headPose (sanitizeLiteResult (\<lambda>s. NaN) 0 badRaw noOptions m)
     = Some \<lparr> pitch = 90, yaw = 0, roll = -90 \<rparr>"
  by (simp_all add: sanitizeLiteResult_def badRaw_def noOptions_def num_def toFaceBox_def toHeadPose_def
      isNumber_def numberOf_def clamp_def mathRound_def toConfidence_def Let_def)

lemma badRaw_flash:
  "map FastEmotion.point (emotions (sanitizeFlashResult (\<lambda>s. NaN) 0 badRaw noOptions m))
     = [(0, 1000), (470, 500)]"
  "map FastEmotion.confidence (emotions (sanitizeFlashResult (\<lambda>s. NaN) 0 badRaw noOptions m))
     = [1, 4/10]"
  by (simp_all add: flash_emotions flashEmotions_def badRaw_def num_def toFacialPart_def partNames_def
      trim_def toPoint_def toConfidence_def isNumber_def numberOf_def clamp_def mathRound_def
      defaultPointForPart_def Let_def)

lemma badRaw_depth:
  "map DepthInsight.point (insights (sanitizeDepthResult (\<lambda>s. NaN) 0 badRaw noOptions m))
     = [(1000, 500)]"
  "map DepthInsight.confidence (insights (sanitizeDepthResult (\<lambda>s. NaN) 0 badRaw noOptions m))
     = [0]"
  by (simp_all add: sanitizeDepthResult_def badRaw_def num_def 
      toPoint_def toConfidence_def isNumber_def numberOf_def clamp_def mathRound_def Let_def)

theorem sanitizer_totality_bounds_witness:
  "liteWithinBounds (sanitizeLiteResult (\<lambda>s. NaN) 0 badRaw noOptions LITE_MODEL)
   \<and> flashWithinBounds (sanitizeFlashResult (\<lambda>s. NaN) 0 badRaw noOptions LITE_MODEL)
   \<and> depthWithinBounds (sanitizeDepthResult (\<lambda>s. NaN) 0 badRaw noOptions LITE_MODEL)
   \<and> map EmotionCandidate.confidence
        (candidates (sanitizeLiteResult (\<lambda>s. NaN) 0 badRaw noOptions LITE_MODEL))
       = [0, 9/20, 9/20, 9/20, 9/20, 9/20]
   \<and> LiteAnalysisResult.faceBox (sanitizeLiteResult (\<lambda>s. NaN) 0 badRaw noOptions LITE_MODEL)
       = Some (0, 20, 1000, 1000)
   \<and> LiteAnalysisResult.headPose (sanitizeLiteResult (\<lambda>s. NaN) 0 badRaw noOptions LITE_MODEL)
       = Some \<lparr> pitch = 90, yaw = 0, roll = -90 \<rparr>
   \<and> map FastEmotion.point
        (emotions (sanitizeFlashResult (\<lambda>s. NaN) 0 badRaw noOptions LITE_MODEL))
       = [(0, 1000), (470, 500)]
   \<and> map DepthInsight.point
        (insights (sanitizeDepthResult (\<lambda>s. NaN) 0 badRaw noOptions LITE_MODEL))
       = [(1000, 500)]"
  using sanitizer_totality_bounds[of "\<lambda>s. NaN" 0 badRaw noOptions LITE_MODEL]
        badRaw_lite(1,3,4)[of LITE_MODEL] badRaw_flash(1)[of LITE_MODEL] badRaw_depth(1)[of LITE_MODEL]
  by simp

section \<open>Properties of the model gate and of the orchestrator\<close>

lemma getGate_fst: "gates w m = Some g \<Longrightarrow> getGate m w = (g, w)"
  by (simp add: getGate_def)

lemma acquireStep_granted:
  "fst (acquireStep m startedAt w) = Granted \<Longrightarrow>
   \<not> inFlight (fst (getGate m w))
   \<and> clock w - lastCompletedAt (fst (getGate m w)) \<ge> cooldownForModel m"
  by (auto simp: acquireStep_def getGate_def Let_def split: option.splits if_splits)

lemma acquireStep_keeps:
  "clock (snd (acquireStep m startedAt w)) = clock w"
  "gates w k = Some g \<Longrightarrow>
     \<exists>g'. gates (snd (acquireStep m startedAt w)) k = Some g' \<and> lastCompletedAt g' = lastCompletedAt g"
  by (auto simp: acquireStep_def getGate_def Let_def split: option.splits if_splits)

lemma releaseGate_sets:
  "clock (releaseGate m w) = clock w"
  "\<exists>g. gates (releaseGate m w) m = Some g \<and> \<not> inFlight g \<and> lastCompletedAt g = clock w"
  by (auto simp: releaseGate_def getGate_def Let_def split: option.splits)

lemma releaseGate_other:
  "k \<noteq> m \<Longrightarrow> gates w k = Some g \<Longrightarrow> gates (releaseGate m w) k = Some g"
  by (auto simp: releaseGate_def getGate_def Let_def split: option.splits)

lemma releasedSince_step:
  assumes "releasedSince m T w" and "passesTime ev"
  shows "releasedSince m T (gateEventStep ev w)"
proof (cases ev)
  case (Elapse d)
  with assms show ?thesis by (auto simp: releasedSince_def)
next
  case (Poll k s)
  from assms(1) obtain g where g: "gates w m = Some g" "T \<le> lastCompletedAt g" "T \<le> clock w"
    by (auto simp: releasedSince_def)
  from acquireStep_keeps(2)[OF g(1), of k s] acquireStep_keeps(1)[of k s w] g Poll
  show ?thesis by (auto simp: releasedSince_def)
next
  case (Release k)
  from assms(1) obtain g where g: "gates w m = Some g" "T \<le> lastCompletedAt g" "T \<le> clock w"
    by (auto simp: releasedSince_def)
  show ?thesis
  proof (cases "k = m")
    case True
    with releaseGate_sets[of m w] g Release show ?thesis by (auto simp: releasedSince_def)
  next
    case False
    with releaseGate_other[OF _ g(1), of k] releaseGate_sets(1)[of k w] g Release
    show ?thesis by (auto simp: releasedSince_def)
  qed
qed

lemma releasedSince_run:
  "releasedSince m T w \<Longrightarrow> \<forall>ev\<in>set evs. passesTime ev \<Longrightarrow> releasedSince m T (runEvents evs w)"
  unfolding runEvents_def
  by (induction evs arbitrary: w) (simp_all add: releasedSince_step)

text \<open>
  Claim C8 (cooldown respected). Release the gate of a model \<open>m\<close> at time \<open>T\<close> (the
  clock of \<open>w\<close>), then let any sequence of events run in which time does not go back:
  time passing, turns of \<open>acquireGate\<close> of any call on any model, further releases. A turn
  of \<open>acquireGate\<close> for \<open>m\<close> that is then granted happens at \<open>T + cooldown(m)\<close> or later,
  with the gate not in flight and at least the cooldown elapsed since its
  \<open>lastCompletedAt\<close>.
\<close>

theorem cooldown_respected:
  assumes "\<forall>ev\<in>set evs. passesTime ev"
      and "fst (acquireStep m startedAt (runEvents evs (releaseGate m w))) = Granted"
  shows "clock w + cooldownForModel m \<le> clock (runEvents evs (releaseGate m w))
       \<and> \<not> inFlight (fst (getGate m (runEvents evs (releaseGate m w))))
       \<and> cooldownForModel m \<le> clock (runEvents evs (releaseGate m w))
             - lastCompletedAt (fst (getGate m (runEvents evs (releaseGate m w))))"
proof -
  let ?w2 = "runEvents evs (releaseGate m w)"
  have "releasedSince m (clock w) (releaseGate m w)"
    using releaseGate_sets[of m w] by (auto simp: releasedSince_def)
  then have "releasedSince m (clock w) ?w2"
    using assms(1) by (rule releasedSince_run)
  then obtain g where g: "gates ?w2 m = Some g" "clock w \<le> lastCompletedAt g"
    by (auto simp: releasedSince_def)
  note gr = acquireStep_granted[OF assms(2)]
  from g(1) have "fst (getGate m ?w2) = g" by (simp add: getGate_fst)
  with gr g(2) show ?thesis by auto
qed

text \<open>
  When a turn of \<open>acquireGate\<close> throws: exactly when it finds the gate in flight and
  more than \<open>GATE_MAX_WAIT_MS\<close> have passed since the acquisition started. The bound is
  tested in no other place: a turn that finds the gate free and cooling down sleeps,
  however long the acquisition has lasted.
\<close>

lemma acquireStep_timeout_iff:
  "fst (acquireStep m s w) = GateTimedOut
   \<longleftrightarrow> inFlight (fst (getGate m w)) \<and> clock w - s > GATE_MAX_WAIT_MS"
  by (simp add: acquireStep_def getGate_def Let_def split: option.splits)

lemma acquireStep_cooling:
  assumes "gates w m = Some g" and "\<not> inFlight g" and "clock w - lastCompletedAt g < cooldownForModel m"
  shows "acquireStep m s w
         = (Sleep (min (max (cooldownForModel m - (clock w - lastCompletedAt g)) GATE_POLL_MS) 400), w)"
  using assms by (simp add: acquireStep_def getGate_def Let_def)

lemma acquireStep_timeout:
  assumes "acquireStep m s w = (GateTimedOut, w1)"
  shows "w1 = w \<and> (\<exists>g. gates w m = Some g \<and> inFlight g) \<and> clock w - s > GATE_MAX_WAIT_MS"
  using assms
  by (auto simp: acquireStep_def getGate_def Let_def split: option.splits if_splits)

lemma acquireLoop_result:
  assumes "acquireLoop env m s w = Some y"
  shows "\<forall>e w'. y = (Inl e, w') \<longrightarrow>
           e = newError (''Model '' @ m @ '' gate wait timed out'')
           \<and> (\<exists>g. gates w' m = Some g \<and> inFlight g) \<and> clock w' - s > GATE_MAX_WAIT_MS"
proof (rule acquireLoop.raw_induct
         [where P = "\<lambda>env m s w y. \<forall>e w'. y = (Inl e, w') \<longrightarrow>
                        e = newError (''Model '' @ m @ '' gate wait timed out'')
                        \<and> (\<exists>g. gates w' m = Some g \<and> inFlight g) \<and> clock w' - s > GATE_MAX_WAIT_MS",
          OF _ assms])
  fix f :: "Env \<Rightarrow> string \<Rightarrow> real \<Rightarrow> World \<Rightarrow> ((thrown + unit) \<times> World) option"
  fix env m s w y
  assume IH: "\<And>env m s w y. f env m s w = Some y \<Longrightarrow>
                \<forall>e w'. y = (Inl e, w') \<longrightarrow>
                  e = newError (''Model '' @ m @ '' gate wait timed out'')
                  \<and> (\<exists>g. gates w' m = Some g \<and> inFlight g) \<and> clock w' - s > GATE_MAX_WAIT_MS"
  assume eq: "(case acquireStep m s w of
                 (Granted, w') \<Rightarrow> Some (Inr (), w')
               | (GateTimedOut, w') \<Rightarrow>
                   Some (Inl (newError (''Model '' @ m @ '' gate wait timed out'')), w')
               | (Sleep ms, w') \<Rightarrow> f env m s (sleepFor env ms w')) = Some y"
  obtain r w1 where st: "acquireStep m s w = (r, w1)" by (cases "acquireStep m s w")
  show "\<forall>e w'. y = (Inl e, w') \<longrightarrow>
          e = newError (''Model '' @ m @ '' gate wait timed out'')
          \<and> (\<exists>g. gates w' m = Some g \<and> inFlight g) \<and> clock w' - s > GATE_MAX_WAIT_MS"
  proof (cases r)
    case Granted
    with st eq show ?thesis by auto
  next
    case GateTimedOut
    with st have "acquireStep m s w = (GateTimedOut, w1)" by simp
    from acquireStep_timeout[OF this] st eq GateTimedOut show ?thesis by auto
  next
    case (Sleep ms)
    with st eq have "f env m s (sleepFor env ms w1) = Some y" by simp
    then show ?thesis by (rule IH)
  qed
qed

lemma acquireLoop_Inl:
  "acquireLoop env m s w = Some (Inl e, w') \<Longrightarrow>
     e = newError (''Model '' @ m @ '' gate wait timed out'')
     \<and> (\<exists>g. gates w' m = Some g \<and> inFlight g) \<and> clock w' - s > GATE_MAX_WAIT_MS"
  using acquireLoop_result by blast

text \<open>
  Claim C3, as amended. When \<open>acquireGate\<close> for a candidate model throws, what it throws
  is the gate-timeout error of that model; it has thrown in a turn that found the gate of
  that model in flight more than \<open>GATE_MAX_WAIT_MS\<close> after the acquisition started (a turn
  throws exactly then: the wait for the cooldown of a gate that is not in flight is not
  bounded and raises no error); and the error leaves \<open>generateWithLaneFallback\<close> at once:
  the candidates that follow are not tried and no gate is released.
\<close>

theorem gate_timeout_aborts_lane_call:
  assumes "acquireGate env m w = Some (Inl e, w1)"
  shows "e = newError (''Model '' @ m @ '' gate wait timed out'')
       \<and> (\<exists>g. gates w1 m = Some g \<and> inFlight g)
       \<and> clock w1 - clock w > GATE_MAX_WAIT_MS
       \<and> (fst (acquireStep m s' w') = GateTimedOut
            \<longleftrightarrow> inFlight (fst (getGate m w')) \<and> clock w' - s' > GATE_MAX_WAIT_MS)
       \<and> fallbackLoop env req (m # rest) lastError w = Some (Inl e, w1)
       \<and> (candidateModels (reqLane req) preferred fallbacks w = m # rest \<longrightarrow>
            generateWithLaneFallback env req preferred fallbacks w = Some (Inl e, w1))"
proof -
  from assms have l: "acquireLoop env m (clock w) (snd (getGate m w)) = Some (Inl e, w1)"
    by (simp add: acquireGate_def)
  note r = acquireLoop_Inl[OF l]
  have t: "fst (acquireStep m s' w') = GateTimedOut
            \<longleftrightarrow> inFlight (fst (getGate m w')) \<and> clock w' - s' > GATE_MAX_WAIT_MS"
    by (rule acquireStep_timeout_iff)
  have f: "fallbackLoop env req (m # rest) lastError w = Some (Inl e, w1)"
    using assms by simp
  then have g: "candidateModels (reqLane req) preferred fallbacks w = m # rest \<longrightarrow>
            generateWithLaneFallback env req preferred fallbacks w = Some (Inl e, w1)"
    by (simp add: generateWithLaneFallback_def)
  from r t f g show ?thesis by blast
qed


lemma lower_ascii_eval:
  "toLowerCase ''gemini-2.5-flash-lite'' = ''gemini-2.5-flash-lite''"
  "toLowerCase ''gemini-2.5-flash'' = ''gemini-2.5-flash''"
  "toLowerCase ''gemini-3-flash-preview'' = ''gemini-3-flash-preview''"
  "toLowerCase ''gemini-3.1-pro-preview'' = ''gemini-3.1-pro-preview''"
  by (simp_all add: toLowerCase_def lowerChar_def)

lemma cooldown_eval:
  "cooldownForModel LITE_MODEL = 450"
  "cooldownForModel ''gemini-2.5-flash'' = 3200"
  "cooldownForModel FLASH_MODEL = 3200"
  "cooldownForModel PRO_MODEL = 45000"
  by (simp_all add: cooldownForModel_def testAnyCI_def lower_ascii_eval LITE_MODEL_def FLASH_MODEL_def
        PRO_MODEL_def LITE_COOLDOWN_MS_def FLASH_COOLDOWN_MS_def PRO_COOLDOWN_MS_def)

lemma sleepFor_lateEnv: "sleepFor lateEnv ms w = w\<lparr> clock := clock w + ms + 9000 \<rparr>"
  by (simp add: lateEnv_def)

lemma sleepFor_failEnv: "sleepFor failEnv ms w = w\<lparr> clock := clock w + ms + 9000 \<rparr>"
  by (simp add: failEnv_def lateEnv_def)

lemma busy_step:
  "c - 100000 \<le> 16000 \<Longrightarrow>
   acquireStep LITE_MODEL 100000 (busyWorld\<lparr> clock := c \<rparr>) = (Sleep 24, busyWorld\<lparr> clock := c \<rparr>)"
  "c - 100000 > 16000 \<Longrightarrow>
   acquireStep LITE_MODEL 100000 (busyWorld\<lparr> clock := c \<rparr>) = (GateTimedOut, busyWorld\<lparr> clock := c \<rparr>)"
  by (simp_all add: acquireStep_def getGate_def busyWorld_def GATE_MAX_WAIT_MS_def GATE_POLL_MS_def)

lemma busy_acquire:
  assumes "\<And>ms w. sleepFor env ms w = w\<lparr> clock := clock w + ms + 9000 \<rparr>"
  shows "acquireGate env LITE_MODEL busyWorld
         = Some (Inl (newError (''Model '' @ LITE_MODEL @ '' gate wait timed out'')),
                 busyWorld\<lparr> clock := 118048 \<rparr>)"
proof -
  have w0: "busyWorld = busyWorld\<lparr> clock := 100000 \<rparr>" by (simp add: busyWorld_def)
  have g: "snd (getGate LITE_MODEL busyWorld) = busyWorld\<lparr> clock := 100000 \<rparr>"
    by (simp add: getGate_def busyWorld_def)
  have "acquireLoop env LITE_MODEL 100000 (busyWorld\<lparr> clock := 118048 \<rparr>)
        = Some (Inl (newError (''Model '' @ LITE_MODEL @ '' gate wait timed out'')),
                busyWorld\<lparr> clock := 118048 \<rparr>)"
    by (subst acquireLoop.simps) (simp add: busy_step)
  then have "acquireLoop env LITE_MODEL 100000 (busyWorld\<lparr> clock := 109024 \<rparr>)
        = Some (Inl (newError (''Model '' @ LITE_MODEL @ '' gate wait timed out'')),
                busyWorld\<lparr> clock := 118048 \<rparr>)"
    by (subst acquireLoop.simps) (simp add: busy_step assms)
  then have "acquireLoop env LITE_MODEL 100000 (busyWorld\<lparr> clock := 100000 \<rparr>)
        = Some (Inl (newError (''Model '' @ LITE_MODEL @ '' gate wait timed out'')),
                busyWorld\<lparr> clock := 118048 \<rparr>)"
    by (subst acquireLoop.simps) (simp add: busy_step assms)
  then show ?thesis
    by (simp add: acquireGate_def g) (simp add: busyWorld_def)
qed

lemma candidates_eval:
  "candidateModels lite LITE_MODEL LITE_FALLBACK_MODELS busyWorld
     = [LITE_MODEL, ''gemini-2.5-flash'', ''gemini-3-flash-preview'']"
  "candidateModels flash FLASH_MODEL FLASH_FALLBACK_MODELS busyWorld = [FLASH_MODEL]"
  "candidateModels pro PRO_MODEL PRO_FALLBACK_MODELS busyWorld = [PRO_MODEL]"
  by (simp_all add: candidateModels_def busyWorld_def LITE_MODEL_def LITE_FALLBACK_MODELS_def
        FLASH_MODEL_def FLASH_FALLBACK_MODELS_def PRO_MODEL_def PRO_FALLBACK_MODELS_def)

lemma free_acquire:
  assumes "gates w m = None" and "cooldownForModel m \<le> clock w"
  shows "acquireGate env m w
         = Some (Inr (), w\<lparr> gates := (gates w)(m \<mapsto> \<lparr> inFlight = True, lastCompletedAt = 0 \<rparr>) \<rparr>)"
  using assms
  by (subst acquireGate_def, subst acquireLoop.simps)
     (simp add: acquireStep_def getGate_def)

text \<open>
  The wait for a cooldown is not bounded by \<open>GATE_MAX_WAIT_MS\<close>: a call on the pro model
  that starts when the preceding one has just finished waits 47 seconds, with wake-ups
  nine seconds late, and is granted the gate.
\<close>

lemma cooled_step:
  "c - 100000 \<le> 44600 \<Longrightarrow>
   acquireStep PRO_MODEL 100000 (cooledWorld\<lparr> clock := c \<rparr>) = (Sleep 400, cooledWorld\<lparr> clock := c \<rparr>)"
  "c - 100000 \<ge> 45000 \<Longrightarrow>
   acquireStep PRO_MODEL 100000 (cooledWorld\<lparr> clock := c \<rparr>)
   = (Granted, cooledWorld\<lparr> clock := c,
                 gates := [PRO_MODEL \<mapsto> \<lparr> inFlight = True, lastCompletedAt = 100000 \<rparr>] \<rparr>)"
  by (simp_all add: acquireStep_def getGate_def cooledWorld_def cooldown_eval GATE_POLL_MS_def)

lemma cooldown_wait_exceeds_bound:
  "acquireGate lateEnv PRO_MODEL cooledWorld
     = Some (Inr (), cooledWorld\<lparr> clock := 147000,
                       gates := [PRO_MODEL \<mapsto> \<lparr> inFlight = True, lastCompletedAt = 100000 \<rparr>] \<rparr>)
   \<and> 147000 - clock cooledWorld > GATE_MAX_WAIT_MS"
proof -
  have g: "snd (getGate PRO_MODEL cooledWorld) = cooledWorld\<lparr> clock := 100000 \<rparr>"
    by (simp add: getGate_def cooledWorld_def)
  have "acquireLoop lateEnv PRO_MODEL 100000 (cooledWorld\<lparr> clock := 147000 \<rparr>)
        = Some (Inr (), cooledWorld\<lparr> clock := 147000,
                       gates := [PRO_MODEL \<mapsto> \<lparr> inFlight = True, lastCompletedAt = 100000 \<rparr>] \<rparr>)"
    by (subst acquireLoop.simps) (simp add: cooled_step)
  then have "acquireLoop lateEnv PRO_MODEL 100000 (cooledWorld\<lparr> clock := 137600 \<rparr>)
        = Some (Inr (), cooledWorld\<lparr> clock := 147000,
                       gates := [PRO_MODEL \<mapsto> \<lparr> inFlight = True, lastCompletedAt = 100000 \<rparr>] \<rparr>)"
    by (subst acquireLoop.simps) (simp add: cooled_step sleepFor_lateEnv)
  then have "acquireLoop lateEnv PRO_MODEL 100000 (cooledWorld\<lparr> clock := 128200 \<rparr>)
        = Some (Inr (), cooledWorld\<lparr> clock := 147000,
                       gates := [PRO_MODEL \<mapsto> \<lparr> inFlight = True, lastCompletedAt = 100000 \<rparr>] \<rparr>)"
    by (subst acquireLoop.simps) (simp add: cooled_step sleepFor_lateEnv)
  then have "acquireLoop lateEnv PRO_MODEL 100000 (cooledWorld\<lparr> clock := 118800 \<rparr>)
        = Some (Inr (), cooledWorld\<lparr> clock := 147000,
                       gates := [PRO_MODEL \<mapsto> \<lparr> inFlight = True, lastCompletedAt = 100000 \<rparr>] \<rparr>)"
    by (subst acquireLoop.simps) (simp add: cooled_step sleepFor_lateEnv)
  then have "acquireLoop lateEnv PRO_MODEL 100000 (cooledWorld\<lparr> clock := 109400 \<rparr>)
        = Some (Inr (), cooledWorld\<lparr> clock := 147000,
                       gates := [PRO_MODEL \<mapsto> \<lparr> inFlight = True, lastCompletedAt = 100000 \<rparr>] \<rparr>)"
    by (subst acquireLoop.simps) (simp add: cooled_step sleepFor_lateEnv)
  then have "acquireLoop lateEnv PRO_MODEL 100000 (cooledWorld\<lparr> clock := 100000 \<rparr>)
        = Some (Inr (), cooledWorld\<lparr> clock := 147000,
                       gates := [PRO_MODEL \<mapsto> \<lparr> inFlight = True, lastCompletedAt = 100000 \<rparr>] \<rparr>)"
    by (subst acquireLoop.simps) (simp add: cooled_step sleepFor_lateEnv)
  then show ?thesis
    by (simp add: acquireGate_def g) (simp add: cooledWorld_def GATE_MAX_WAIT_MS_def)
qed

text \<open>
  Claim C3 as stated fails: with the gate of the first candidate held by a call that does
  not finish, the lane call ends with that candidate's gate-timeout error, although the
  next candidate would have answered.
\<close>

theorem gate_timeout_next_candidate_counterexample:
  "candidateModels lite LITE_MODEL LITE_FALLBACK_MODELS busyWorld
     = [LITE_MODEL, ''gemini-2.5-flash'', ''gemini-3-flash-preview'']
   \<and> acquireGate lateEnv LITE_MODEL busyWorld
     = Some (Inl (newError (''Model '' @ LITE_MODEL @ '' gate wait timed out'')),
             busyWorld\<lparr> clock := 118048 \<rparr>)
   \<and> generateWithLaneFallback lateEnv (liteRequest ''/9j/4AAQ'' noOptions) LITE_MODEL LITE_FALLBACK_MODELS busyWorld
     = Some (Inl (newError (''Model '' @ LITE_MODEL @ '' gate wait timed out'')),
             busyWorld\<lparr> clock := 118048 \<rparr>)
   \<and> map_option fst
        (fallbackLoop lateEnv (liteRequest ''/9j/4AAQ'' noOptions)
           [''gemini-2.5-flash'', ''gemini-3-flash-preview''] None (busyWorld\<lparr> clock := 118048 \<rparr>))
     = Some (Inr (''{}'', ''gemini-2.5-flash''))"
proof -
  note a = busy_acquire[of lateEnv, OF sleepFor_lateEnv]
  have f: "acquireGate lateEnv ''gemini-2.5-flash'' (busyWorld\<lparr> clock := 118048 \<rparr>)
           = Some (Inr (), (busyWorld\<lparr> clock := 118048 \<rparr>)\<lparr> gates := (gates (busyWorld\<lparr> clock := 118048 \<rparr>))
                 (''gemini-2.5-flash'' \<mapsto> \<lparr> inFlight = True, lastCompletedAt = 0 \<rparr>) \<rparr>)"
    by (rule free_acquire) (simp_all add: busyWorld_def LITE_MODEL_def cooldown_eval)
  have "map_option fst
        (fallbackLoop lateEnv (liteRequest ''/9j/4AAQ'' noOptions)
           [''gemini-2.5-flash'', ''gemini-3-flash-preview''] None (busyWorld\<lparr> clock := 118048 \<rparr>))
     = Some (Inr (''{}'', ''gemini-2.5-flash''))"
    by (simp add: f) (simp add: lateEnv_def)
  then show ?thesis
    by (simp add: candidates_eval generateWithLaneFallback_def liteRequest_def a)
qed

theorem gate_timeout_aborts_lane_call_witness:
  "acquireGate lateEnv LITE_MODEL busyWorld
     = Some (Inl (newError (''Model '' @ LITE_MODEL @ '' gate wait timed out'')),
             busyWorld\<lparr> clock := 118048 \<rparr>)
   \<and> (\<exists>g. gates (busyWorld\<lparr> clock := 118048 \<rparr>) LITE_MODEL = Some g \<and> inFlight g)
   \<and> 118048 - clock busyWorld > GATE_MAX_WAIT_MS
   \<and> fallbackLoop lateEnv (liteRequest ''/9j/4AAQ'' noOptions)
      [LITE_MODEL, ''gemini-2.5-flash'', ''gemini-3-flash-preview''] None busyWorld
     = Some (Inl (newError (''Model '' @ LITE_MODEL @ '' gate wait timed out'')),
             busyWorld\<lparr> clock := 118048 \<rparr>)
   \<and> generateWithLaneFallback lateEnv (liteRequest ''/9j/4AAQ'' noOptions) LITE_MODEL LITE_FALLBACK_MODELS busyWorld
     = Some (Inl (newError (''Model '' @ LITE_MODEL @ '' gate wait timed out'')),
             busyWorld\<lparr> clock := 118048 \<rparr>)"
proof -
  note a = busy_acquire[of lateEnv, OF sleepFor_lateEnv]
  from gate_timeout_aborts_lane_call[OF a,
          where req = "liteRequest ''/9j/4AAQ'' noOptions"
            and rest = "[''gemini-2.5-flash'', ''gemini-3-flash-preview'']"
            and lastError = None and preferred = LITE_MODEL and fallbacks = LITE_FALLBACK_MODELS
            and s' = 0 and w' = busyWorld]
  have "(\<exists>g. gates (busyWorld\<lparr> clock := 118048 \<rparr>) LITE_MODEL = Some g \<and> inFlight g)
      \<and> clock (busyWorld\<lparr> clock := 118048 \<rparr>) - clock busyWorld > GATE_MAX_WAIT_MS
      \<and> fallbackLoop lateEnv (liteRequest ''/9j/4AAQ'' noOptions)
          [LITE_MODEL, ''gemini-2.5-flash'', ''gemini-3-flash-preview''] None busyWorld
        = Some (Inl (newError (''Model '' @ LITE_MODEL @ '' gate wait timed out'')),
             busyWorld\<lparr> clock := 118048 \<rparr>)
      \<and> generateWithLaneFallback lateEnv (liteRequest ''/9j/4AAQ'' noOptions) LITE_MODEL LITE_FALLBACK_MODELS busyWorld
        = Some (Inl (newError (''Model '' @ LITE_MODEL @ '' gate wait timed out'')),
             busyWorld\<lparr> clock := 118048 \<rparr>)"
    by (simp add: candidates_eval liteRequest_def)
  with a show ?thesis by simp
qed

theorem cooldown_respected_witness:
  "fst (acquireStep LITE_MODEL 100200
          (runEvents [Elapse 200, Poll LITE_MODEL 100200, Elapse 250] (releaseGate LITE_MODEL busyWorld)))
     = Granted
   \<and> fst (acquireStep LITE_MODEL 100200 (runEvents [Elapse 200] (releaseGate LITE_MODEL busyWorld)))
     = Sleep 250
   \<and> clock busyWorld + cooldownForModel LITE_MODEL
       \<le> clock (runEvents [Elapse 200, Poll LITE_MODEL 100200, Elapse 250] (releaseGate LITE_MODEL busyWorld))
   \<and> cooldownForModel LITE_MODEL = 450"
proof -
  have p: "\<forall>ev\<in>set [Elapse 200, Poll LITE_MODEL 100200, Elapse 250]. passesTime ev" by simp
  have g: "fst (acquireStep LITE_MODEL 100200
          (runEvents [Elapse 200, Poll LITE_MODEL 100200, Elapse 250] (releaseGate LITE_MODEL busyWorld)))
     = Granted"
    by (simp add: runEvents_def releaseGate_def acquireStep_def getGate_def busyWorld_def cooldown_eval
                  GATE_POLL_MS_def)
  have s: "fst (acquireStep LITE_MODEL 100200 (runEvents [Elapse 200] (releaseGate LITE_MODEL busyWorld)))
     = Sleep 250"
    by (simp add: runEvents_def releaseGate_def acquireStep_def getGate_def busyWorld_def cooldown_eval
                  GATE_POLL_MS_def)
  from cooldown_respected[OF p g] g s show ?thesis by (simp add: cooldown_eval)
qed


text \<open>
  Claim C9 (a failed lane call gives the default result). For each of the three lanes and
  every value \<open>e\<close> with which \<open>generateWithLaneFallback\<close> fails (a time-out, a quota
  or network error of the model call, the gate-timeout error), the lane function returns
  the lane's default result: \<open>faceDetected\<close> false where the result has it, confidence
  0, empty lists. A lane function has no way to fail: it returns whenever the call does.
\<close>

theorem lane_failure_returns_default:
  "(generateWithLaneFallback env (liteRequest img options) LITE_MODEL LITE_FALLBACK_MODELS w = Some (Inl e, w')
      \<longrightarrow> (\<exists>r. analyzeLitePrimaryEmotion env img options w = Some (r, w')
               \<and> r = toDefaultLiteResult (clock w') options
                        (case resolvedLaneModels w' lite of Some m \<Rightarrow> m | None \<Rightarrow> LITE_MODEL)
               \<and> \<not> LiteAnalysisResult.faceDetected r \<and> LiteAnalysisResult.confidence r = 0
               \<and> primaryConfidence r = 0 \<and> candidates r = []))
   \<and> (generateWithLaneFallback env (flashRequest img options) FLASH_MODEL FLASH_FALLBACK_MODELS w = Some (Inl e, w')
      \<longrightarrow> (\<exists>r. analyzeFlashInsights env img options w = Some (r, w')
               \<and> r = toDefaultFlashResult (clock w') options
                        (case resolvedLaneModels w' flash of Some m \<Rightarrow> m | None \<Rightarrow> FLASH_MODEL)
               \<and> \<not> FastAnalysisResult.faceDetected r \<and> FastAnalysisResult.confidence r = 0
               \<and> emotions r = [] \<and> landmarks r = [] \<and> FastAnalysisResult.semanticAnchors r = []))
   \<and> (generateWithLaneFallback env (proRequest img options) PRO_MODEL PRO_FALLBACK_MODELS w = Some (Inl e, w')
      \<longrightarrow> (\<exists>r. analyzeDepthInsights env img options w = Some (r, w')
               \<and> r = toDefaultDepthResult (clock w') options
                        (case resolvedLaneModels w' pro of Some m \<Rightarrow> m | None \<Rightarrow> PRO_MODEL)
               \<and> DepthAnalysisResult.confidence r = 0
               \<and> insights r = [] \<and> DepthAnalysisResult.semanticAnchors r = []))
   \<and> (analyzeLitePrimaryEmotion env img options w = None
        \<longleftrightarrow> generateWithLaneFallback env (liteRequest img options) LITE_MODEL LITE_FALLBACK_MODELS w = None)
   \<and> (analyzeFlashInsights env img options w = None
        \<longleftrightarrow> generateWithLaneFallback env (flashRequest img options) FLASH_MODEL FLASH_FALLBACK_MODELS w = None)
   \<and> (analyzeDepthInsights env img options w = None
        \<longleftrightarrow> generateWithLaneFallback env (proRequest img options) PRO_MODEL PRO_FALLBACK_MODELS w = None)"
proof (intro conjI impI)
  assume "generateWithLaneFallback env (liteRequest img options) LITE_MODEL LITE_FALLBACK_MODELS w = Some (Inl e, w')"
  then show "\<exists>r. analyzeLitePrimaryEmotion env img options w = Some (r, w')
               \<and> r = toDefaultLiteResult (clock w') options
                        (case resolvedLaneModels w' lite of Some m \<Rightarrow> m | None \<Rightarrow> LITE_MODEL)
               \<and> \<not> LiteAnalysisResult.faceDetected r \<and> LiteAnalysisResult.confidence r = 0
               \<and> primaryConfidence r = 0 \<and> candidates r = []"
    by (simp add: analyzeLitePrimaryEmotion_def toDefaultLiteResult_def)
next
  assume "generateWithLaneFallback env (flashRequest img options) FLASH_MODEL FLASH_FALLBACK_MODELS w = Some (Inl e, w')"
  then show "\<exists>r. analyzeFlashInsights env img options w = Some (r, w')
               \<and> r = toDefaultFlashResult (clock w') options
                        (case resolvedLaneModels w' flash of Some m \<Rightarrow> m | None \<Rightarrow> FLASH_MODEL)
               \<and> \<not> FastAnalysisResult.faceDetected r \<and> FastAnalysisResult.confidence r = 0
               \<and> emotions r = [] \<and> landmarks r = [] \<and> FastAnalysisResult.semanticAnchors r = []"
    by (simp add: analyzeFlashInsights_def toDefaultFlashResult_def)
next
  assume "generateWithLaneFallback env (proRequest img options) PRO_MODEL PRO_FALLBACK_MODELS w = Some (Inl e, w')"
  then show "\<exists>r. analyzeDepthInsights env img options w = Some (r, w')
               \<and> r = toDefaultDepthResult (clock w') options
                        (case resolvedLaneModels w' pro of Some m \<Rightarrow> m | None \<Rightarrow> PRO_MODEL)
               \<and> DepthAnalysisResult.confidence r = 0
               \<and> insights r = [] \<and> DepthAnalysisResult.semanticAnchors r = []"
    by (simp add: analyzeDepthInsights_def toDefaultDepthResult_def)
next
  show "analyzeLitePrimaryEmotion env img options w = None
        \<longleftrightarrow> generateWithLaneFallback env (liteRequest img options) LITE_MODEL LITE_FALLBACK_MODELS w = None"
    by (simp add: analyzeLitePrimaryEmotion_def split: option.splits prod.splits sum.splits)
next
  show "analyzeFlashInsights env img options w = None
        \<longleftrightarrow> generateWithLaneFallback env (flashRequest img options) FLASH_MODEL FLASH_FALLBACK_MODELS w = None"
    by (simp add: analyzeFlashInsights_def split: option.splits prod.splits sum.splits)
next
  show "analyzeDepthInsights env img options w = None
        \<longleftrightarrow> generateWithLaneFallback env (proRequest img options) PRO_MODEL PRO_FALLBACK_MODELS w = None"
    by (simp add: analyzeDepthInsights_def split: option.splits prod.splits sum.splits)
qed

lemma callModel_failEnv:
  "callModel failEnv req w
   = (Inl (if reqLane req = flash then quotaError
           else newError (reqLabel req @ '' timed out after 120000ms'')), w\<lparr> clock := clock w + 500 \<rparr>)"
  by (simp add: failEnv_def)

lemma no_fallback_eval:
  "\<not> shouldFallbackModelError quotaError"
  "\<not> shouldFallbackModelError (newError ''Pro medical interpretation timed out after 120000ms'')"
  by (simp_all add: shouldFallbackModelError_def quotaError_def newError_def testAnyCI_def
        toLowerCase_def lowerChar_def Let_def)

lemma fail_flash:
  "generateWithLaneFallback failEnv (flashRequest ''/9j/4AAQ'' noOptions) FLASH_MODEL FLASH_FALLBACK_MODELS busyWorld
   = Some (Inl quotaError,
           releaseGate FLASH_MODEL
             (busyWorld\<lparr> gates := (gates busyWorld)(FLASH_MODEL \<mapsto> \<lparr> inFlight = True, lastCompletedAt = 0 \<rparr>),
                          clock := 100500 \<rparr>))"
proof -
  have f: "acquireGate failEnv FLASH_MODEL busyWorld
           = Some (Inr (), busyWorld\<lparr> gates := (gates busyWorld)
                 (FLASH_MODEL \<mapsto> \<lparr> inFlight = True, lastCompletedAt = 0 \<rparr>) \<rparr>)"
    by (rule free_acquire) (simp_all add: busyWorld_def LITE_MODEL_def FLASH_MODEL_def cooldown_eval[unfolded FLASH_MODEL_def])
  show ?thesis
    by (simp add: generateWithLaneFallback_def candidates_eval flashRequest_def f callModel_failEnv
                  no_fallback_eval)
       (simp add: busyWorld_def)
qed

lemma fail_pro:
  "generateWithLaneFallback failEnv (proRequest ''/9j/4AAQ'' noOptions) PRO_MODEL PRO_FALLBACK_MODELS busyWorld
   = Some (Inl (newError ''Pro medical interpretation timed out after 120000ms''),
           releaseGate PRO_MODEL
             (busyWorld\<lparr> gates := (gates busyWorld)(PRO_MODEL \<mapsto> \<lparr> inFlight = True, lastCompletedAt = 0 \<rparr>),
                          clock := 100500 \<rparr>))"
proof -
  have f: "acquireGate failEnv PRO_MODEL busyWorld
           = Some (Inr (), busyWorld\<lparr> gates := (gates busyWorld)
                 (PRO_MODEL \<mapsto> \<lparr> inFlight = True, lastCompletedAt = 0 \<rparr>) \<rparr>)"
    by (rule free_acquire) (simp_all add: busyWorld_def LITE_MODEL_def PRO_MODEL_def cooldown_eval[unfolded PRO_MODEL_def])
  show ?thesis
    by (simp add: generateWithLaneFallback_def candidates_eval proRequest_def noOptions_def f
                  callModel_failEnv no_fallback_eval Let_def)
       (simp add: busyWorld_def)
qed

lemma fail_lite:
  "generateWithLaneFallback failEnv (liteRequest ''/9j/4AAQ'' noOptions) LITE_MODEL LITE_FALLBACK_MODELS busyWorld
     = Some (Inl (newError (''Model '' @ LITE_MODEL @ '' gate wait timed out'')),
             busyWorld\<lparr> clock := 118048 \<rparr>)"
  by (simp add: generateWithLaneFallback_def candidates_eval liteRequest_def
                busy_acquire[of failEnv, OF sleepFor_failEnv])

theorem lane_failure_returns_default_witness:
  "map_option fst (analyzeLitePrimaryEmotion failEnv ''/9j/4AAQ'' noOptions busyWorld)
     = Some (toDefaultLiteResult 118048 noOptions LITE_MODEL)
   \<and> map_option fst (analyzeFlashInsights failEnv ''/9j/4AAQ'' noOptions busyWorld)
     = Some (toDefaultFlashResult 100500 noOptions FLASH_MODEL)
   \<and> map_option fst (analyzeDepthInsights failEnv ''/9j/4AAQ'' noOptions busyWorld)
     = Some (toDefaultDepthResult 100500 noOptions PRO_MODEL)"
proof -
  note t1 = lane_failure_returns_default[of failEnv "''/9j/4AAQ''" noOptions busyWorld
              "newError (''Model '' @ LITE_MODEL @ '' gate wait timed out'')" "busyWorld\<lparr> clock := 118048 \<rparr>"]
  note t2 = lane_failure_returns_default[of failEnv "''/9j/4AAQ''" noOptions busyWorld quotaError
              "releaseGate FLASH_MODEL
                 (busyWorld\<lparr> gates := (gates busyWorld)(FLASH_MODEL \<mapsto> \<lparr> inFlight = True, lastCompletedAt = 0 \<rparr>),
                              clock := 100500 \<rparr>)"]
  note t3 = lane_failure_returns_default[of failEnv "''/9j/4AAQ''" noOptions busyWorld
              "newError ''Pro medical interpretation timed out after 120000ms''"
              "releaseGate PRO_MODEL
                 (busyWorld\<lparr> gates := (gates busyWorld)(PRO_MODEL \<mapsto> \<lparr> inFlight = True, lastCompletedAt = 0 \<rparr>),
                              clock := 100500 \<rparr>)"]
  have a: "map_option fst (analyzeLitePrimaryEmotion failEnv ''/9j/4AAQ'' noOptions busyWorld)
     = Some (toDefaultLiteResult 118048 noOptions LITE_MODEL)"
    using t1 fail_lite by (auto simp: busyWorld_def)
  have b: "map_option fst (analyzeFlashInsights failEnv ''/9j/4AAQ'' noOptions busyWorld)
     = Some (toDefaultFlashResult 100500 noOptions FLASH_MODEL)"
    using t2 fail_flash by (auto simp: busyWorld_def releaseGate_sets(1) releaseGate_def getGate_def)
  have c: "map_option fst (analyzeDepthInsights failEnv ''/9j/4AAQ'' noOptions busyWorld)
     = Some (toDefaultDepthResult 100500 noOptions PRO_MODEL)"
    using t3 fail_pro by (auto simp: busyWorld_def releaseGate_def getGate_def)
  from a b c show ?thesis by simp
qed

section \<open>Properties of the label layout engine\<close>

lemma intersects_gap: "0 \<le> g \<Longrightarrow> intersects a b \<Longrightarrow> intersectsWithGap a b g"
  by (simp add: intersects_def intersectsWithGap_def)

lemma intersectsWithGap_mono: "g \<le> h \<Longrightarrow> intersectsWithGap a b g \<Longrightarrow> intersectsWithGap a b h"
  by (simp add: intersectsWithGap_def)

lemma firstPass_clear:
  "firstPass placed input bounds dir offs = Some c \<Longrightarrow> e \<in> set placed \<Longrightarrow>
   \<not> intersects e c \<and> (prefers input \<longrightarrow> \<not> intersectsWithGap e c 10)"
proof (induction offs)
  case Nil
  then show ?case by simp
next
  case (Cons off offs)
  show ?case
  proof (cases "firstPass placed input bounds dir offs = Some c")
    case True
    then show ?thesis using Cons by blast
  next
    case False
    with Cons.prems(1) have c: "c = attemptAt input bounds off"
      and nc: "\<not> list_ex (\<lambda>existing. if (if prefers input then 10 else 0 :: real) > 0
                                       then intersectsWithGap existing c (if prefers input then 10 else 0)
                                       else intersects existing c) placed"
      by (auto simp: Let_def split: if_splits option.splits)
    from nc Cons.prems(2) have
      "\<not> (if (if prefers input then 10 else 0 :: real) > 0
           then intersectsWithGap e c (if prefers input then 10 else 0)
           else intersects e c)"
      by (auto simp: list_ex_iff)
    then show ?thesis
      using intersects_gap[of 10 e c] by (cases "prefers input") auto
  qed
qed

lemma secondPass_clear:
  "secondPass placed input bounds offs = Some c \<Longrightarrow> e \<in> set placed \<Longrightarrow> \<not> intersectsWithGap e c 6"
  by (induction offs) (auto simp: Let_def list_ex_iff split: if_splits)

lemma offsetPlacement_clear:
  assumes "offsetPlacement srt placed input bounds = Some c" and "e \<in> set placed"
  shows "\<not> intersects e c \<and> (prefers input \<longrightarrow> \<not> intersectsWithGap e c 6)"
proof (cases "firstPass placed input bounds (outwardFor input bounds) (offsetsFor srt input bounds)")
  case (Some c1)
  with assms(1) have "c1 = c" by (simp add: offsetPlacement_def)
  with Some firstPass_clear[OF _ assms(2)] have
    "\<not> intersects e c \<and> (prefers input \<longrightarrow> \<not> intersectsWithGap e c 10)" by blast
  then show ?thesis using intersectsWithGap_mono[of 6 10 e c] by auto
next
  case None
  with assms(1) have "secondPass placed input bounds (offsetsFor srt input bounds) = Some c"
    by (simp add: offsetPlacement_def split: if_splits)
  from secondPass_clear[OF this assms(2)] show ?thesis
    using intersects_gap[of 6 e c] by auto
qed

lemma layoutLoop_length:
  "length (layoutLoop srt placed inputs bounds) = length placed + length inputs"
  by (induction inputs arbitrary: placed) simp_all

lemma layoutLoop_take:
  "take (length placed) (layoutLoop srt placed inputs bounds) = placed"
proof (induction inputs arbitrary: placed)
  case Nil
  then show ?case by simp
next
  case (Cons input rest)
  let ?c = "placeLabel srt placed input bounds"
  let ?out = "layoutLoop srt (placed @ [?c]) rest bounds"
  have "take (Suc (length placed)) ?out = placed @ [?c]"
    using Cons[of "placed @ [?c]"] by simp
  then have "take (length placed) (take (Suc (length placed)) ?out) = take (length placed) (placed @ [?c])"
    by simp
  then show ?case by (simp add: min_def)
qed

lemma layoutLoop_nth:
  "k < length inputs \<Longrightarrow>
   layoutLoop srt placed inputs bounds ! (length placed + k)
   = placeLabel srt (take (length placed + k) (layoutLoop srt placed inputs bounds)) (inputs ! k) bounds"
proof (induction inputs arbitrary: placed k)
  case Nil
  then show ?case by simp
next
  case (Cons input rest)
  let ?c = "placeLabel srt placed input bounds"
  let ?out = "layoutLoop srt (placed @ [?c]) rest bounds"
  show ?case
  proof (cases k)
    case 0
    have t: "take (Suc (length placed)) ?out = placed @ [?c]"
      using layoutLoop_take[of "placed @ [?c]" srt rest bounds] by simp
    then have "take (Suc (length placed)) ?out ! length placed = ?c" by simp
    then have n: "?out ! length placed = ?c" by simp
    from t have "take (length placed) (take (Suc (length placed)) ?out) = take (length placed) (placed @ [?c])"
      by simp
    then have "take (length placed) ?out = placed" by (simp add: min_def)
    with n 0 show ?thesis by simp
  next
    case (Suc k')
    with Cons.prems have "k' < length rest" by simp
    from Cons.IH[OF this, of "placed @ [?c]"] Suc show ?thesis by simp
  qed
qed

text \<open>
  Claim C1, as amended. \<open>layoutLabels\<close> runs its placement loop over the list that the
  engine's sort returns, cut to \<open>maxLabels\<close>. For every sort of the engine and every list
  \<open>ordered\<close> that the loop is run over, in whatever order, the output has one box for
  each label of \<open>ordered\<close>, and every box that was placed by one of the candidate offsets
  (in the first or in the second loop) intersects no box placed before it; when its label
  prefers distance, the two rectangles padded by a gap of 6 do not intersect either. A box
  placed by the final fixed-offset or radial fallback is not checked against the placed
  boxes.
\<close>

theorem offset_placed_labels_do_not_overlap:
  assumes "out = layoutLoop srt [] ordered bounds"
      and "j < length out" and "i < j"
      and "offsetPlacement srt (take j out) (ordered ! j) bounds \<noteq> None"
  shows "layoutLabels srt inputs bounds maxLabels
           = layoutLoop srt [] (take maxLabels (sortInputs srt priorityOrder inputs)) bounds
       \<and> length out = length ordered
       \<and> out ! j = the (offsetPlacement srt (take j out) (ordered ! j) bounds)
       \<and> \<not> intersects (out ! i) (out ! j)
       \<and> (prefers (ordered ! j) \<longrightarrow> \<not> intersectsWithGap (out ! i) (out ! j) 6)"
proof -
  have def: "layoutLabels srt inputs bounds maxLabels
           = layoutLoop srt [] (take maxLabels (sortInputs srt priorityOrder inputs)) bounds"
    by (simp add: layoutLabels_def sortedInputs_def)
  have len: "length out = length ordered"
    by (simp add: assms(1) layoutLoop_length)
  from assms(4) obtain c where c: "offsetPlacement srt (take j out) (ordered ! j) bounds = Some c"
    by auto
  have "out ! j = placeLabel srt (take j out) (ordered ! j) bounds"
    using layoutLoop_nth[of j ordered srt "[]" bounds] assms(2) len
    by (simp add: assms(1))
  with c have oj: "out ! j = c" by (simp add: placeLabel_def)
  have "out ! i \<in> set (take j out)"
    using assms(2,3) by (metis in_set_conv_nth length_take min.absorb2 nth_take less_imp_le_nat)
  from offsetPlacement_clear[OF c this] oj c len def show ?thesis by simp
qed

lemmas layout_eval =
  layoutLabels_def sortedInputs_def stableSort_def sortBy_def priorityOrder_def placeLabel_def
  offsetPlacement_def fallbackPlacement_def attemptAt_def keepInBounds_def clamp_def intersects_def
  intersectsWithGap_def prefers_def outwardFor_def offsetsFor_def OFFSETS_def crowdedInputs_def
  crowdedLabel_def wideBounds_def boxAt_def LabelLayoutInput.extend_def LabelLayoutOutput.fields_def
  Let_def

lemma crowded_order:
  "priorityOrder (crowdedLabel ''happy'' (9/10)) (crowdedLabel ''calm'' (7/10)) = - (1/5)"
  "priorityOrder (crowdedLabel ''calm'' (7/10)) (crowdedLabel ''tired'' (1/2)) = - (1/5)"
  "priorityOrder (crowdedLabel ''happy'' (9/10)) (crowdedLabel ''tired'' (1/2)) = - (2/5)"
  "priorityOrder (crowdedLabel ''calm'' (7/10)) (crowdedLabel ''happy'' (9/10)) = 1/5"
  "priorityOrder (crowdedLabel ''tired'' (1/2)) (crowdedLabel ''calm'' (7/10)) = 1/5"
  "priorityOrder (crowdedLabel ''tired'' (1/2)) (crowdedLabel ''happy'' (9/10)) = 2/5"
  by (simp_all add: priorityOrder_def crowdedLabel_def)

lemma crowded_sorted:
  "sortedInputs stableSort crowdedInputs 12 = crowdedInputs"
  by (simp add: sortedInputs_def stableSort_def sortBy_def crowdedInputs_def crowded_order)

lemma crowded_first:
  "offsetPlacement srt [] (crowdedLabel ''happy'' (9/10)) wideBounds
   = Some (boxAt (crowdedLabel ''happy'' (9/10)) 514 382)"
  by (simp add: layout_eval)

lemma crowded_second:
  "offsetPlacement srt [boxAt (crowdedLabel ''happy'' (9/10)) 514 382] (crowdedLabel ''calm'' (7/10)) wideBounds
   = Some (boxAt (crowdedLabel ''calm'' (7/10)) 516 416)"
  by (simp add: layout_eval)

lemma crowded_third:
  "offsetPlacement srt
      [boxAt (crowdedLabel ''happy'' (9/10)) 514 382, boxAt (crowdedLabel ''calm'' (7/10)) 516 416]
      (crowdedLabel ''tired'' (1/2)) wideBounds = None"
  by (simp add: layout_eval)

lemma crowded_third_fallback:
  "fallbackPlacement (crowdedLabel ''tired'' (1/2)) wideBounds = boxAt (crowdedLabel ''tired'' (1/2)) 514 414"
  by (simp add: layout_eval)

lemma crowded_loop:
  "layoutLoop srt [] crowdedInputs wideBounds
   = [boxAt (crowdedLabel ''happy'' (9/10)) 514 382,
      boxAt (crowdedLabel ''calm'' (7/10)) 516 416,
      boxAt (crowdedLabel ''tired'' (1/2)) 514 414]"
  by (simp add: crowdedInputs_def placeLabel_def crowded_first crowded_second crowded_third
                crowded_third_fallback)

lemma crowded_layout:
  "layoutLabels stableSort crowdedInputs wideBounds 12
   = [boxAt (crowdedLabel ''happy'' (9/10)) 514 382,
      boxAt (crowdedLabel ''calm'' (7/10)) 516 416,
      boxAt (crowdedLabel ''tired'' (1/2)) 514 414]"
  unfolding layoutLabels_def crowded_sorted by (rule crowded_loop)

text \<open>
  Claim C1 as stated fails: of three labels on one anchor, each fitting the viewport, with
  priorities 0.9, 0.7 and 0.5 (on which the comparator is the descending order of the
  priorities, so that the sorted list is the input list), the third finds every offset
  taken, is placed by the fixed-offset fallback and intersects the second.
\<close>

theorem layout_fallback_overlap_counterexample:
  "fitsViewport (crowdedLabel ''happy'' (9/10)) wideBounds
   \<and> fitsViewport (crowdedLabel ''calm'' (7/10)) wideBounds
   \<and> fitsViewport (crowdedLabel ''tired'' (1/2)) wideBounds
   \<and> priorityOrder (crowdedLabel ''happy'' (9/10)) (crowdedLabel ''calm'' (7/10)) < 0
   \<and> priorityOrder (crowdedLabel ''calm'' (7/10)) (crowdedLabel ''tired'' (1/2)) < 0
   \<and> priorityOrder (crowdedLabel ''happy'' (9/10)) (crowdedLabel ''tired'' (1/2)) < 0
   \<and> priorityOrder (crowdedLabel ''calm'' (7/10)) (crowdedLabel ''happy'' (9/10)) > 0
   \<and> priorityOrder (crowdedLabel ''tired'' (1/2)) (crowdedLabel ''calm'' (7/10)) > 0
   \<and> priorityOrder (crowdedLabel ''tired'' (1/2)) (crowdedLabel ''happy'' (9/10)) > 0
   \<and> layoutLabels stableSort crowdedInputs wideBounds 12
       = [boxAt (crowdedLabel ''happy'' (9/10)) 514 382,
          boxAt (crowdedLabel ''calm'' (7/10)) 516 416,
          boxAt (crowdedLabel ''tired'' (1/2)) 514 414]
   \<and> intersects (layoutLabels stableSort crowdedInputs wideBounds 12 ! 1)
                 (layoutLabels stableSort crowdedInputs wideBounds 12 ! 2)"
  by (simp add: crowded_layout crowded_order)
     (simp add: fitsViewport_def crowdedLabel_def wideBounds_def intersects_def boxAt_def
                LabelLayoutInput.extend_def LabelLayoutOutput.fields_def)

lemma hash_eval:
  "unat (hashText ''a'') = 97"
  "unat (hashText ''b'') = 98"
  by (simp_all add: hashText_def)

lemma rotate_eval:
  "rotateOffsets EMOTION_OFFSETS 97 = drop 22 EMOTION_OFFSETS @ take 22 EMOTION_OFFSETS"
  "rotateOffsets EMOTION_OFFSETS 98 = drop 23 EMOTION_OFFSETS @ take 23 EMOTION_OFFSETS"
  by (simp_all add: rotateOffsets_def EMOTION_OFFSETS_def)

lemma distant_offsets:
  "offsetsFor srt (distantLabel ''a'' pr) wideBounds
   = [(-132, -4), (-132, 52), (-132, -56)] @ take 22 EMOTION_OFFSETS"
  "offsetsFor srt (distantLabel ''b'' pr) wideBounds
   = [(-132, 52), (-132, -56)] @ take 23 EMOTION_OFFSETS"
  by (simp_all add: offsetsFor_def prefers_def distantLabel_def crowdedLabel_def hash_eval rotate_eval
        prioritizeOutwardOffsets_def getOutwardDirection_def wideBounds_def)
     (simp_all add: EMOTION_OFFSETS_def)

lemma distant_first:
  "offsetPlacement srt [] (distantLabel ''a'' (9/10)) wideBounds
   = Some (boxAt (distantLabel ''a'' (9/10)) 368 396)"
  by (simp add: offsetPlacement_def distant_offsets)
     (simp add: outwardFor_def getOutwardDirection_def wideBounds_def attemptAt_def keepInBounds_def
        clamp_def prefers_def distantLabel_def crowdedLabel_def boxAt_def
        LabelLayoutInput.extend_def LabelLayoutOutput.fields_def)

lemma distant_second:
  "offsetPlacement srt [boxAt (distantLabel ''a'' (9/10)) 368 396] (distantLabel ''b'' (1/2)) wideBounds
   = Some (boxAt (distantLabel ''b'' (1/2)) 368 452)"
  by (simp add: offsetPlacement_def distant_offsets)
     (simp add: outwardFor_def getOutwardDirection_def wideBounds_def attemptAt_def keepInBounds_def
        clamp_def prefers_def distantLabel_def crowdedLabel_def boxAt_def intersectsWithGap_def
        LabelLayoutInput.extend_def LabelLayoutOutput.fields_def)

lemma distant_loop:
  "layoutLoop srt [] distantInputs wideBounds
   = [boxAt (distantLabel ''a'' (9/10)) 368 396, boxAt (distantLabel ''b'' (1/2)) 368 452]"
  by (simp add: distantInputs_def placeLabel_def distant_first distant_second)

theorem offset_placed_labels_do_not_overlap_witness:
  "layoutLoop stableSort [] crowdedInputs wideBounds ! 1 = boxAt (crowdedLabel ''calm'' (7/10)) 516 416
   \<and> \<not> intersects (layoutLoop stableSort [] crowdedInputs wideBounds ! 0)
                   (layoutLoop stableSort [] crowdedInputs wideBounds ! 1)
   \<and> layoutLoop stableSort [] distantInputs wideBounds ! 1 = boxAt (distantLabel ''b'' (1/2)) 368 452
   \<and> prefers (distantInputs ! 1)
   \<and> \<not> intersectsWithGap (layoutLoop stableSort [] distantInputs wideBounds ! 0)
                          (layoutLoop stableSort [] distantInputs wideBounds ! 1) 6"
proof -
  let ?out = "layoutLoop stableSort [] crowdedInputs wideBounds"
  let ?far = "layoutLoop stableSort [] distantInputs wideBounds"
  have i: "(0::nat) < 1" by simp
  have j: "1 < length ?out" by (simp add: crowded_loop)
  have o: "offsetPlacement stableSort (take 1 ?out) (crowdedInputs ! 1) wideBounds \<noteq> None"
    by (simp add: crowded_loop) (simp add: crowdedInputs_def crowded_second)
  from offset_placed_labels_do_not_overlap[OF refl j i o]
  have a: "\<not> intersects (?out ! 0) (?out ! 1)" by blast
  have j': "1 < length ?far" by (simp add: distant_loop)
  have o': "offsetPlacement stableSort (take 1 ?far) (distantInputs ! 1) wideBounds \<noteq> None"
    by (simp add: distant_loop) (simp add: distantInputs_def distant_second)
  have p: "prefers (distantInputs ! 1)"
    by (simp add: distantInputs_def distantLabel_def prefers_def)
  from offset_placed_labels_do_not_overlap[OF refl j' i o'] p
  have b: "\<not> intersectsWithGap (?far ! 0) (?far ! 1) 6" by blast
  from a b p show ?thesis by (simp add: crowded_loop distant_loop)
qed

end
